theory Spec2Isabelle
  imports Main "HOL-Library.Word"
begin

section \<open>Data model of \<open>cmd/operate/install_perform.go\<close>\<close>

text \<open>
  Go's \<open>int64\<close> is a 64-bit word: \<open>+\<close> wraps around, and the comparisons of the
  source are the signed ones (\<open><s\<close>, \<open>\<le>s\<close>).
\<close>

type_synonym int64 = "64 word"

text \<open>
  Errors are values. \<open>errors.WithStack\<close>, \<open>errors.Wrap\<close> and \<open>errors.WithMessage\<close>
  of \<open>github.com/pkg/errors\<close> wrap an error; \<open>errors.Cause\<close> peels the wrappers off.
  \<open>External n\<close> stands for any error value produced by a collaborator that is none of
  the sentinels the source compares against. \<open>CodeUnsupportedPackaging\<close> is a constant of
  package \<open>butlerd\<close>; \<open>ErrNeedLocal\<close> is a sentinel of package \<open>installer\<close>.
\<close>

datatype error =
    ErrNeedLocal
  | CodeUnsupportedPackaging
  | CodeOperationCancelled
  | ErrorsNew string
  | External nat
  | WithStack error
  | Wrap error string
  | WithMessage error string

fun Cause :: "error \<Rightarrow> error" where
  "Cause (WithStack e) = Cause e"
| "Cause (Wrap e m) = Cause e"
| "Cause (WithMessage e m) = Cause e"
| "Cause e = e"

text \<open>
  What a Go function of result type \<open>error\<close> does: it returns \<open>nil\<close>, returns an error,
  or panics (a nil-pointer dereference unwinds through every caller).
\<close>

datatype ret = Nil | Err error | Panic

text \<open>
  \<open>installer.InstallerType\<close> is a string type. The source names four of its values;
  every other value (the native installers among them) is \<open>InstallerTypeOther\<close>.
\<close>

datatype InstallerType =
    InstallerTypeUnknown
  | InstallerTypeNaked
  | InstallerTypeArchive
  | InstallerTypeUnsupported
  | InstallerTypeOther string

record InstallerInfo =
  InfoType :: InstallerType

record InstallResult =
  Files :: "string list"

record Upload =
  UploadID :: int64
  UploadSize :: int64

record Build =
  BuildID :: int64

record Game =
  GameID :: int64

record GameCredentials =
  Server :: string
  APIKey :: string
  DownloadKey :: int64

record UpgradePathItem =
  ItemID :: int64
  ItemPatchSize :: int64

record Receipt =
  ReceiptUpload :: "Upload option"
  ReceiptBuild :: "Build option"
  ReceiptFiles :: "string list"

text \<open>
  \<open>meta.Data\<close>, the parameters of the operation. \<open>Upload\<close> and \<open>Build\<close> are pointers
  that may be \<open>nil\<close>; \<open>Game\<close> and \<open>Credentials\<close> are required.
\<close>

record MetaSubcontextState =
  MGame :: Game
  MUpload :: "Upload option"
  MBuild :: "Build option"
  MCredentials :: GameCredentials
  InstallFolder :: string
  IgnoreInstallers :: bool
  NoCave :: bool

text \<open>\<open>isub.Data\<close>, the checkpointed install substate. An unset pointer is \<open>None\<close>,
  an unset session id is the empty string.\<close>

record InstallSubcontextState =
  DownloadSessionId :: string
  IsAvailableLocally :: bool
  InstallerInfoOf :: "InstallerInfo option"
  SecondInstallerInfo :: "InstallerInfo option"
  FirstInstallResult :: "InstallResult option"

type_synonym "file" = nat
type_synonym client = nat
type_synonym manager = nat

text \<open>\<open>type InstallPerformStrategy = int\<close> with its three constants.\<close>

type_synonym InstallPerformStrategy = int

definition InstallPerformStrategyNone :: InstallPerformStrategy where
  "InstallPerformStrategyNone = 0"

definition InstallPerformStrategyInstall :: InstallPerformStrategy where
  "InstallPerformStrategyInstall = 1"

definition InstallPerformStrategyHeal :: InstallPerformStrategy where
  "InstallPerformStrategyHeal = 2"

record InstallPrepareResult =
  File :: "file option"
  ReceiptIn :: "Receipt option"
  Strategy :: InstallPerformStrategy

text \<open>\<open>&InstallPrepareResult{}\<close>: every field has its zero value.\<close>

definition emptyInstallPrepareResult :: InstallPrepareResult where
  "emptyInstallPrepareResult = \<lparr>File = None, ReceiptIn = None, Strategy = 0\<rparr>"

record CommitInstallParams =
  CommitInstallFolder :: string
  CommitInstallerName :: InstallerType
  CommitInstallResult :: InstallResult

subsection \<open>Collaborators and effects\<close>

text \<open>
  Two closures of the source run more than once in one operation: \<open>doForceLocal\<close> (called
  from \<open>InstallPrepare\<close> for an external upload, and from the needs-local retry) and
  \<open>tryInstall\<close> (first run, retry with the local file, nested installer). The label of the
  invocation is passed to every collaborator they call, so that a collaborator may answer
  differently each time.
\<close>

datatype force_site = FromPrepare | FromRetry

datatype attempt = FirstTry | LocalRetry | NestedTry

datatype open_site = OpenSource | OpenLocal force_site

datatype stat_site = StatForce force_site | StatTask

datatype probe_site = ProbeSource | ProbeSingle

datatype os_site = OpenSingle | OpenNested

text \<open>
  The collaborators of the file (API client, receipt reader, file opener, format prober,
  backend registry, file system, healer, committer, staging store), each as the answer it
  gives in the run at hand. None of them is defined in \<open>install_perform.go\<close>.
\<close>

record env =
  StageFolder :: string
  Base :: "string \<Rightarrow> string"
  Join :: "string list \<Rightarrow> string"
  Dir :: "string \<Rightarrow> string"
  ClientFromCredentials :: "GameCredentials \<Rightarrow> error + client"
  ReadReceipt :: "string \<Rightarrow> error + Receipt option"
  NewDownloadSession :: "client \<Rightarrow> int64 \<Rightarrow> int64 \<Rightarrow> error + string"
  FindUpgrade :: "client \<Rightarrow> int64 \<Rightarrow> int64 \<Rightarrow> int64 \<Rightarrow> error + UpgradePathItem list"
  sourceURL :: "InstallSubcontextState \<Rightarrow> MetaSubcontextState \<Rightarrow> string"
  eos_Open :: "open_site \<Rightarrow> string \<Rightarrow> error + file"
  UploadIsProbablyExternal :: "Upload option \<Rightarrow> bool"
  GetInstallerInfo :: "probe_site \<Rightarrow> file \<Rightarrow> error + InstallerInfo"
  file_Seek :: "file \<Rightarrow> error option"
  file_Stat :: "stat_site \<Rightarrow> file \<Rightarrow> error + string \<times> int64"
  AssessDiskUsage :: "file \<Rightarrow> Receipt option \<Rightarrow> string \<Rightarrow> InstallerInfo \<Rightarrow> error option"
  NotifyDownloadStarted :: "force_site \<Rightarrow> error option"
  NotifyDownloadSucceeded :: "force_site \<Rightarrow> error option"
  DownloadInstallSource :: "force_site \<Rightarrow> file \<Rightarrow> string \<Rightarrow> error option"
  GetManager :: "InstallerType \<Rightarrow> manager option"
  IsWindowsInstaller :: "InstallerType \<Rightarrow> bool"
  ctx_Done :: "attempt \<Rightarrow> bool"
  NotifyInstallStarted :: "attempt \<Rightarrow> error option"
  manager_Install :: "attempt \<Rightarrow> manager \<Rightarrow> file \<Rightarrow> error + InstallResult"
  os_Open :: "os_site \<Rightarrow> string \<Rightarrow> error + file"
  os_Stat :: "string \<Rightarrow> error option"
  os_MkdirAll :: "string \<Rightarrow> error option"
  os_RemoveAll :: "string \<Rightarrow> error option"
  os_Rename :: "string \<Rightarrow> string \<Rightarrow> error option"
  heal :: "Receipt option \<Rightarrow> InstallSubcontextState \<Rightarrow> error option"
  commitInstall :: "CommitInstallParams \<Rightarrow> error option"
  LoadContext :: "string \<Rightarrow> error option"
  oc_LoadMeta :: MetaSubcontextState
  oc_Load :: InstallSubcontextState
  oc_Retire :: "error option"

text \<open>
  What a run leaves behind, in the order it happens: the warnings and errors it logs, and
  the calls that read or change something outside the process (API queries, files opened
  and closed, probes, downloads, backend runs, checkpoints of the substate, the commit, the
  retirement of the context). \<open>Infof\<close> lines, progress reports, notifications and pure
  lookups are not recorded. \<open>EvTryInstall\<close> marks an entry into the closure \<open>tryInstall\<close>,
  \<open>EvInstall\<close> the call of \<open>manager.Install\<close> inside it.
\<close>

datatype event =
    EvWarnf string
  | EvErrorf string
  | EvReadReceipt
  | EvNewDownloadSession
  | EvFindUpgrade int64 int64 int64
  | EvSave InstallSubcontextState
  | EvOpen open_site string
  | EvClose "file"
  | EvGetInstallerInfo probe_site "file"
  | EvSeek "file"
  | EvAssessDiskUsage InstallerInfo
  | EvDownloadInstallSource force_site string
  | EvSetCave
  | EvTryInstall attempt
  | EvInstall attempt manager "file"
  | EvRename string string
  | EvHeal
  | EvCommit CommitInstallParams
  | EvRetire

text \<open>The state a run threads: the in-memory substate that \<open>isub.Data\<close> and \<open>istate\<close>
  both point to, and the calls made so far.\<close>

record state =
  istate :: InstallSubcontextState
  trace :: "event list"

definition emit :: "event \<Rightarrow> state \<Rightarrow> state" where
  "emit e s = s\<lparr>trace := trace s @ [e]\<rparr>"

definition oc_Save :: "state \<Rightarrow> state" where
  "oc_Save s = emit (EvSave (istate s)) s"

section \<open>\<open>doForceLocal\<close>\<close>

text \<open>The closure \<open>dlErr\<close> of \<open>doForceLocal\<close> (lines 85 to 113).\<close>

definition dlErr :: "env \<Rightarrow> force_site \<Rightarrow> file \<Rightarrow> string \<Rightarrow> state \<Rightarrow> error option \<times> state" where
  "dlErr env who file destPath s =
     (case NotifyDownloadStarted env who of
        Some err \<Rightarrow> (Some (WithStack err), s)
      | None \<Rightarrow>
          (let s1 = emit (EvDownloadInstallSource who destPath) s in
           case DownloadInstallSource env who file destPath of
             Some err \<Rightarrow> (Some (WithStack err), s1)
           | None \<Rightarrow>
               (case NotifyDownloadSucceeded env who of
                  Some err \<Rightarrow> (Some (WithStack err), s1)
                | None \<Rightarrow> (None, s1))))"

definition doForceLocal :: "env \<Rightarrow> force_site \<Rightarrow> file \<Rightarrow> state \<Rightarrow> (error + file) \<times> state" where
  "doForceLocal env who file s =
     (case file_Stat env (StatForce who) file of
        Inl err \<Rightarrow> (Inl (WithStack err), s)
      | Inr stats \<Rightarrow>
          (let destName = Base env (fst stats);
               destPath = Join env [StageFolder env, ''install-source'', destName];
               copied =
                 (if IsAvailableLocally (istate s) then (None, s)
                  else
                    (case dlErr env who file destPath s of
                       (Some e, s1) \<Rightarrow> (Some (Wrap e ''downloading install source''), s1)
                     | (None, s1) \<Rightarrow>
                         (None, oc_Save (s1\<lparr>istate := (istate s1)\<lparr>IsAvailableLocally := True\<rparr>\<rparr>))))
           in case copied of
                (Some e, s2) \<Rightarrow> (Inl e, s2)
              | (None, s2) \<Rightarrow>
                  (let s3 = emit (EvOpen (OpenLocal who) destPath) s2 in
                   case eos_Open env (OpenLocal who) destPath of
                     Inl err \<Rightarrow> (Inl (WithStack err), s3)
                   | Inr r \<Rightarrow> (Inr r, s3))))"

section \<open>\<open>InstallPrepare\<close>\<close>

text \<open>The loop of lines 208 to 216: the patch sizes of the path are added up, the entries
  carrying the old build's id skipped.\<close>

fun upgradeSizeLoop :: "int64 \<Rightarrow> UpgradePathItem list \<Rightarrow> int64 \<Rightarrow> int64" where
  "upgradeSizeLoop oldID [] totalUpgradeSize = totalUpgradeSize"
| "upgradeSizeLoop oldID (item # items) totalUpgradeSize =
     (if ItemID item = oldID then upgradeSizeLoop oldID items totalUpgradeSize
      else upgradeSizeLoop oldID items (totalUpgradeSize + ItemPatchSize item))"

type_synonym InstallTask = "InstallPrepareResult \<Rightarrow> state \<Rightarrow> ret \<times> state"

text \<open>
  \<open>InstallPrepare\<close> ends in one of two ways: it returns by itself, or it returns what
  its continuation gives (\<open>return task(res)\<close>). The body below computes which, and
  \<open>InstallPrepare\<close> then runs the task; the second component is the file whose
  \<open>Close\<close> was deferred (line 255), closed when the function returns.
\<close>

datatype outcome = Return ret | RunTask InstallPrepareResult

text \<open>Lines 276 to 315: the source is probed unless a classification other than
  \<open>unknown\<close> is cached.\<close>

definition probeSource :: "env \<Rightarrow> MetaSubcontextState \<Rightarrow> Receipt option \<Rightarrow> file \<Rightarrow> state \<Rightarrow> error option \<times> state" where
  "probeSource env params receiptIn file s =
     (if InstallerInfoOf (istate s) = None
         \<or> map_option InfoType (InstallerInfoOf (istate s)) = Some InstallerTypeUnknown
      then
        (let s1 = emit (EvGetInstallerInfo ProbeSource file) s in
         case GetInstallerInfo env ProbeSource file of
           Inl err \<Rightarrow> (Some (WithStack err), s1)
         | Inr probed \<Rightarrow>
             (let s2 = emit (EvSeek file) s1 in
              case file_Seek env file of
                Some err \<Rightarrow> (Some (WithStack err), s2)
              | None \<Rightarrow>
                  (let installerInfo =
                         (if IgnoreInstallers params then
                            (case InfoType probed of
                               InstallerTypeArchive \<Rightarrow> probed
                             | InstallerTypeNaked \<Rightarrow> probed
                             | _ \<Rightarrow> probed\<lparr>InfoType := InstallerTypeNaked\<rparr>)
                          else probed);
                       s3 = emit (EvAssessDiskUsage installerInfo) s2
                   in case AssessDiskUsage env file receiptIn (InstallFolder params) installerInfo of
                        Some err \<Rightarrow> (Some (WithMessage err ''assessing disk usage''), s3)
                      | None \<Rightarrow>
                          (None, oc_Save (s3\<lparr>istate := (istate s3)\<lparr>InstallerInfoOf := Some installerInfo\<rparr>\<rparr>)))))
      else (None, s))"

text \<open>Lines 257 to 274: an external upload is downloaded first. \<open>Inl\<close> is an early
  return, \<open>Inr\<close> the file and the result to go on with.\<close>

definition forceExternal :: "env \<Rightarrow> MetaSubcontextState \<Rightarrow> bool \<Rightarrow> InstallPrepareResult \<Rightarrow> file \<Rightarrow> state \<Rightarrow> (ret + file \<times> InstallPrepareResult) \<times> state" where
  "forceExternal env params allowDownloads res file s =
     (if MBuild params = None \<and> UploadIsProbablyExternal env (MUpload params) then
        (let s1 = emit (EvWarnf ''Dealing with an external upload, all bets are off.'') s in
         if \<not> allowDownloads then
           (Inl Nil, emit (EvWarnf ''Can't determine source information at that time'') s1)
         else
           (let s2 = emit (EvWarnf ''Forcing download before we check anything else.'') s1 in
            case doForceLocal env FromPrepare file s2 of
              (Inl err, s3) \<Rightarrow> (Inl (Err (WithStack err)), s3)
            | (Inr lf, s3) \<Rightarrow> (Inr (lf, res\<lparr>File := Some lf\<rparr>), emit (EvClose file) s3)))
      else (Inr (file, res), s))"

text \<open>Lines 257 to 323, once the source file is open.\<close>

definition prepareOpened :: "env \<Rightarrow> MetaSubcontextState \<Rightarrow> bool \<Rightarrow> InstallPrepareResult \<Rightarrow> file \<Rightarrow> state \<Rightarrow> outcome \<times> state" where
  "prepareOpened env params allowDownloads res0 file0 s =
     (case forceExternal env params allowDownloads res0 file0 s of
        (Inl r, s4) \<Rightarrow> (Return r, s4)
      | (Inr (file, res), s4) \<Rightarrow>
          (case probeSource env params (ReceiptIn res) file s4 of
             (Some err, s5) \<Rightarrow> (Return (Err err), s5)
           | (None, s5) \<Rightarrow>
               (if map_option InfoType (InstallerInfoOf (istate s5)) = Some InstallerTypeUnsupported then
                  (Return (Err (WithStack CodeUnsupportedPackaging)),
                   emit (EvErrorf ''Item is packaged in a way that isn't supported, refusing to install'') s5)
                else (RunTask res, s5))))"

text \<open>Lines 248 to 255: the source is opened and its \<open>Close\<close> deferred.\<close>

definition installFromSource :: "env \<Rightarrow> MetaSubcontextState \<Rightarrow> bool \<Rightarrow> InstallPrepareResult \<Rightarrow> state \<Rightarrow> (outcome \<times> file option) \<times> state" where
  "installFromSource env params allowDownloads res s =
     (let installSourceURL = sourceURL env (istate s) params;
          s1 = emit (EvOpen OpenSource installSourceURL) s
      in case eos_Open env OpenSource installSourceURL of
           Inl err \<Rightarrow> ((Return (Err (WithStack err)), None), s1)
         | Inr file \<Rightarrow>
             (case prepareOpened env params allowDownloads (res\<lparr>File := Some file\<rparr>) file s1 of
                (out, s2) \<Rightarrow> ((out, Some file), s2)))"

text \<open>Lines 190 to 245: installing over the same upload, both builds known. Control
  falls from the upgrade branch through to the re-install of lines 242 to 244.\<close>

definition sameUploadBuilds :: "env \<Rightarrow> MetaSubcontextState \<Rightarrow> client \<Rightarrow> InstallPrepareResult \<Rightarrow> Upload \<Rightarrow> int64 \<Rightarrow> int64 \<Rightarrow> state \<Rightarrow> outcome \<times> state" where
  "sameUploadBuilds env params client res upload oldID newID s =
     (if oldID <s newID then
        (let s1 = emit (EvFindUpgrade oldID (UploadID upload) (DownloadKey (MCredentials params))) s in
         case FindUpgrade env client oldID (UploadID upload) (DownloadKey (MCredentials params)) of
           Inl err \<Rightarrow>
             (RunTask (res\<lparr>Strategy := InstallPerformStrategyHeal\<rparr>),
              emit (EvWarnf ''Could not find upgrade path'') s1)
         | Inr upgradePath \<Rightarrow>
             (let totalUpgradeSize = upgradeSizeLoop oldID upgradePath 0;
                  fullUploadSize = UploadSize upload
              in if fullUploadSize <s totalUpgradeSize then
                   (RunTask (res\<lparr>Strategy := InstallPerformStrategyHeal\<rparr>), s1)
                 else
                   (RunTask (res\<lparr>Strategy := InstallPerformStrategyHeal\<rparr>),
                    emit (EvWarnf ''TODO: update (falling back to install for now)'') s1)))
      else if newID <s oldID then
        (RunTask (res\<lparr>Strategy := InstallPerformStrategyHeal\<rparr>), s)
      else (RunTask (res\<lparr>Strategy := InstallPerformStrategyHeal\<rparr>), s))"

text \<open>Lines 188 to 246. \<open>params.Upload.ID\<close> dereferences the requested upload once the
  receipt is known to carry one.\<close>

definition selectStrategy :: "env \<Rightarrow> MetaSubcontextState \<Rightarrow> bool \<Rightarrow> client \<Rightarrow> InstallPrepareResult \<Rightarrow> state \<Rightarrow> (outcome \<times> file option) \<times> state" where
  "selectStrategy env params allowDownloads client res s =
     (case ReceiptIn res of
        None \<Rightarrow> installFromSource env params allowDownloads res s
      | Some receiptIn \<Rightarrow>
          (case ReceiptUpload receiptIn of
             None \<Rightarrow> installFromSource env params allowDownloads res s
           | Some receiptUpload \<Rightarrow>
               (case MUpload params of
                  None \<Rightarrow> ((Return Panic, None), s)
                | Some upload \<Rightarrow>
                    if UploadID receiptUpload = UploadID upload then
                      (case (ReceiptBuild receiptIn, MBuild params) of
                         (Some oldBuild, Some newBuild) \<Rightarrow>
                           (case sameUploadBuilds env params client res upload
                                   (BuildID oldBuild) (BuildID newBuild) s of
                              (out, s1) \<Rightarrow> ((out, None), s1))
                       | _ \<Rightarrow> installFromSource env params allowDownloads res s)
                    else installFromSource env params allowDownloads res s)))"

text \<open>Lines 160 to 176: a download session is created unless one is recorded.\<close>

definition ensureDownloadSession :: "env \<Rightarrow> MetaSubcontextState \<Rightarrow> client \<Rightarrow> state \<Rightarrow> error option \<times> state" where
  "ensureDownloadSession env params client s =
     (if DownloadSessionId (istate s) = [] then
        (let s1 = emit EvNewDownloadSession s in
         case NewDownloadSession env client (GameID (MGame params)) (DownloadKey (MCredentials params)) of
           Inl err \<Rightarrow> (Some (WithStack err), s1)
         | Inr uuid \<Rightarrow> (None, oc_Save (s1\<lparr>istate := (istate s1)\<lparr>DownloadSessionId := uuid\<rparr>\<rparr>)))
      else (None, s))"

text \<open>Lines 148 to 158: an unreadable receipt counts as no receipt.\<close>

definition readReceiptIn :: "env \<Rightarrow> MetaSubcontextState \<Rightarrow> state \<Rightarrow> Receipt option \<times> state" where
  "readReceiptIn env params s =
     (let s1 = emit EvReadReceipt s in
      case ReadReceipt env (InstallFolder params) of
        Inl err \<Rightarrow> (None, emit (EvErrorf ''Could not read existing receipt'') s1)
      | Inr receiptIn \<Rightarrow> (receiptIn, s1))"

definition prepareBody :: "env \<Rightarrow> MetaSubcontextState \<Rightarrow> bool \<Rightarrow> state \<Rightarrow> (outcome \<times> file option) \<times> state" where
  "prepareBody env params allowDownloads s =
     (case ClientFromCredentials env (MCredentials params) of
        Inl err \<Rightarrow> ((Return (Err (WithStack err)), None), s)
      | Inr client \<Rightarrow>
          (case readReceiptIn env params s of
             (receiptIn, s2) \<Rightarrow>
               (case ensureDownloadSession env params client s2 of
                  (Some err, s3) \<Rightarrow> ((Return (Err err), None), s3)
                | (None, s3) \<Rightarrow>
                    selectStrategy env params allowDownloads client
                      (emptyInstallPrepareResult\<lparr>ReceiptIn := receiptIn\<rparr>) s3)))"

definition runDeferred :: "file option \<Rightarrow> state \<Rightarrow> state" where
  "runDeferred deferred s = (case deferred of None \<Rightarrow> s | Some file \<Rightarrow> emit (EvClose file) s)"

definition InstallPrepare :: "env \<Rightarrow> MetaSubcontextState \<Rightarrow> bool \<Rightarrow> InstallTask \<Rightarrow> state \<Rightarrow> ret \<times> state" where
  "InstallPrepare env params allowDownloads task s =
     (case prepareBody env params allowDownloads s of
        ((Return r, deferred), s') \<Rightarrow> (r, runDeferred deferred s')
      | ((RunTask res, deferred), s') \<Rightarrow>
          (case task res s' of (r, s'') \<Rightarrow> (r, runDeferred deferred s'')))"

section \<open>\<open>doInstallPerform\<close>\<close>

text \<open>The closure \<open>tryInstall\<close> (lines 382 to 413), with the values its captured variables
  \<open>manager\<close> and \<open>managerInstallParams.File\<close> have at the call.\<close>

definition tryInstall :: "env \<Rightarrow> attempt \<Rightarrow> manager \<Rightarrow> file \<Rightarrow> state \<Rightarrow> (error + InstallResult) \<times> state" where
  "tryInstall env att mgr file s =
     (let s1 = emit (EvTryInstall att) s;
          (r, s2) =
            (if ctx_Done env att then (Inl (WithStack CodeOperationCancelled), s1)
             else
               (case NotifyInstallStarted env att of
                  Some err \<Rightarrow> (Inl (WithStack err), s1)
                | None \<Rightarrow>
                    (let s3 = emit (EvInstall att mgr file) s1 in
                     case manager_Install env att mgr file of
                       Inl err \<Rightarrow> (Inl (WithStack err), s3)
                     | Inr res \<Rightarrow> (Inr res, s3))))
      in (r, emit (EvClose file) s2))"

text \<open>Lines 415 to 442: the first install, skipped when its result is recorded, retried
  once with a local file when the backend asks for one.\<close>

definition firstInstall :: "env \<Rightarrow> manager \<Rightarrow> file \<Rightarrow> state \<Rightarrow> (error + InstallResult) \<times> state" where
  "firstInstall env mgr file s =
     (case FirstInstallResult (istate s) of
        Some firstInstallResult \<Rightarrow> (Inr firstInstallResult, s)
      | None \<Rightarrow>
          (let (r, s1) = tryInstall env FirstTry mgr file s;
               (r', s2) =
                 (case r of
                    Inr res \<Rightarrow> (Inr res, s1)
                  | Inl err \<Rightarrow>
                      if Cause err = ErrNeedLocal then
                        (case doForceLocal env FromRetry file s1 of
                           (Inl localErr, s') \<Rightarrow> (Inl (Inl (WithStack err)), s')
                         | (Inr lf, s') \<Rightarrow>
                             (case tryInstall env LocalRetry mgr lf s' of
                                (Inl err', s'') \<Rightarrow> (Inl (Inr err'), s'')
                              | (Inr res, s'') \<Rightarrow> (Inr res, s'')))
                      else (Inl (Inr err), s1))
           in case r' of
                Inl (Inl e) \<Rightarrow> (Inl e, s2)
              | Inl (Inr err) \<Rightarrow> (Inl (WithStack err), s2)
              | Inr firstInstallResult \<Rightarrow>
                  (Inr firstInstallResult,
                   oc_Save (s2\<lparr>istate := (istate s2)\<lparr>FirstInstallResult := Some firstInstallResult\<rparr>\<rparr>))))"

text \<open>Lines 492 to 513: the single file is moved to the nested source path unless
  something is there already.\<close>

definition relocateSingle :: "env \<Rightarrow> string \<Rightarrow> string \<Rightarrow> state \<Rightarrow> error option \<times> state" where
  "relocateSingle env singlePath destPath s =
     (case os_Stat env destPath of
        None \<Rightarrow> (None, s)
      | Some _ \<Rightarrow>
          (case os_MkdirAll env (Dir env destPath) of
             Some err \<Rightarrow> (Some (WithStack err), s)
           | None \<Rightarrow>
               (case os_RemoveAll env destPath of
                  Some err \<Rightarrow> (Some (WithStack err), s)
                | None \<Rightarrow>
                    (let s1 = emit (EvRename singlePath destPath) s in
                     case os_Rename env singlePath destPath of
                       Some err \<Rightarrow> (Some (WithStack err), s1)
                     | None \<Rightarrow> (None, s1)))))"

text \<open>Lines 477 to 524 of the nested closure, once the single file's classification is
  known. The result is the error it returns, or the final installer info and result.\<close>

definition nestedAfterProbe :: "env \<Rightarrow> MetaSubcontextState \<Rightarrow> InstallerInfo \<Rightarrow> InstallResult \<Rightarrow> string \<Rightarrow> InstallerInfo \<Rightarrow> state \<Rightarrow> (error + InstallerInfo \<times> InstallResult) \<times> state" where
  "nestedAfterProbe env params installerInfo firstInstallResult single secondInstallerInfo s =
     (if \<not> IsWindowsInstaller env (InfoType secondInstallerInfo) then
        (Inr (installerInfo, firstInstallResult), s)
      else
        (case GetManager env (InfoType secondInstallerInfo) of
           None \<Rightarrow> (Inl (ErrorsNew ''Don't know how to install packages''), s)
         | Some mgr \<Rightarrow>
             (let singlePath = Join env [InstallFolder params, single];
                  destName = Base env single;
                  destPath = Join env [StageFolder env, ''nested-install-source'', destName]
              in case relocateSingle env singlePath destPath s of
                   (Some e, s2) \<Rightarrow> (Inl e, s2)
                 | (None, s2) \<Rightarrow>
                     (case os_Open env OpenNested destPath of
                        Inl err \<Rightarrow> (Inl (WithStack err), s2)
                      | Inr lf \<Rightarrow>
                          (case tryInstall env NestedTry mgr lf s2 of
                             (Inl err, s3) \<Rightarrow> (Inl err, s3)
                           | (Inr res, s3) \<Rightarrow> (Inr (secondInstallerInfo, res), s3))))))"

text \<open>Lines 453 to 525: the closure run when the first install wrote a single file.\<close>

definition nestedInstall :: "env \<Rightarrow> MetaSubcontextState \<Rightarrow> InstallerInfo \<Rightarrow> InstallResult \<Rightarrow> string \<Rightarrow> state \<Rightarrow> (error + InstallerInfo \<times> InstallResult) \<times> state" where
  "nestedInstall env params installerInfo firstInstallResult single s =
     (case SecondInstallerInfo (istate s) of
        Some secondInstallerInfo \<Rightarrow>
          nestedAfterProbe env params installerInfo firstInstallResult single secondInstallerInfo s
      | None \<Rightarrow>
          (case os_Open env OpenSingle (Join env [InstallFolder params, single]) of
             Inl err \<Rightarrow> (Inl (WithStack err), s)
           | Inr sf \<Rightarrow>
               (let s1 = emit (EvGetInstallerInfo ProbeSingle sf) s;
                    (r, s2) =
                      (case GetInstallerInfo env ProbeSingle sf of
                         Inl err \<Rightarrow> (Inr (installerInfo, firstInstallResult), s1)
                       | Inr secondInstallerInfo \<Rightarrow>
                           nestedAfterProbe env params installerInfo firstInstallResult single
                             secondInstallerInfo
                             (oc_Save ((emit (EvClose sf) s1)
                                \<lparr>istate := (istate s1)\<lparr>SecondInstallerInfo := Some secondInstallerInfo\<rparr>\<rparr>)))
                in (r, emit (EvClose sf) s2))))"

text \<open>The task that \<open>doInstallPerform\<close> hands to \<open>InstallPrepare\<close> (lines 337 to 542).\<close>

definition performTask :: "env \<Rightarrow> MetaSubcontextState \<Rightarrow> InstallTask" where
  "performTask env params prepareRes s =
     (if Strategy prepareRes = InstallPerformStrategyHeal then
        (let s1 = emit EvHeal s in
         case heal env (ReceiptIn prepareRes) (istate s) of
           Some err \<Rightarrow> (Err err, s1)
         | None \<Rightarrow> (Nil, s1))
      else
        (case File prepareRes of
           None \<Rightarrow> (Panic, s)
         | Some file \<Rightarrow>
             (case file_Stat env StatTask file of
                Inl err \<Rightarrow> (Err (WithStack err), s)
              | Inr stats \<Rightarrow>
                  (let s1 = (if \<not> NoCave params then emit EvSetCave s else s) in
                   case InstallerInfoOf (istate s) of
                     None \<Rightarrow> (Panic, s1)
                   | Some installerInfo \<Rightarrow>
                       (case GetManager env (InfoType installerInfo) of
                          None \<Rightarrow> (Err (ErrorsNew ''No manager for installer''), s1)
                        | Some mgr \<Rightarrow>
                            (case firstInstall env mgr file s1 of
                               (Inl err, s2) \<Rightarrow> (Err err, s2)
                             | (Inr firstInstallResult, s2) \<Rightarrow>
                                 (let (final, s3) =
                                        (case Files firstInstallResult of
                                           [single] \<Rightarrow>
                                             nestedInstall env params installerInfo firstInstallResult single s2
                                         | _ \<Rightarrow> (Inr (installerInfo, firstInstallResult), s2))
                                  in case final of
                                       Inl err \<Rightarrow> (Err (WithStack err), s3)
                                     | Inr (finalInstallerInfo, finalInstallResult) \<Rightarrow>
                                         (let cp = \<lparr>CommitInstallFolder = InstallFolder params,
                                                    CommitInstallerName = InfoType finalInstallerInfo,
                                                    CommitInstallResult = finalInstallResult\<rparr>;
                                              s4 = emit (EvCommit cp) s3
                                          in case commitInstall env cp of
                                               Some err \<Rightarrow> (Err err, s4)
                                             | None \<Rightarrow> (Nil, s4)))))))))"

text \<open>\<open>oc.Load(isub)\<close> fills the fresh substate from the staging folder.\<close>

definition doInstallPerform :: "env \<Rightarrow> MetaSubcontextState \<Rightarrow> state \<Rightarrow> ret \<times> state" where
  "doInstallPerform env params s =
     InstallPrepare env params True (performTask env params) (s\<lparr>istate := oc_Load env\<rparr>)"

section \<open>\<open>InstallPerform\<close>\<close>

definition InstallPerform :: "env \<Rightarrow> string \<Rightarrow> state \<Rightarrow> ret \<times> state" where
  "InstallPerform env StagingFolder s =
     (if StagingFolder = [] then (Err (ErrorsNew ''No staging folder specified''), s)
      else
        (case LoadContext env StagingFolder of
           Some err \<Rightarrow> (Err (WithStack err), s)
         | None \<Rightarrow>
             (case doInstallPerform env (oc_LoadMeta env) s of
                (Err err, s1) \<Rightarrow> (Err (WithStack err), s1)
              | (Panic, s1) \<Rightarrow> (Panic, s1)
              | (Nil, s1) \<Rightarrow>
                  (let s2 = emit EvRetire s1 in
                   case oc_Retire env of
                     Some err \<Rightarrow> (Err (WithStack err), s2)
                   | None \<Rightarrow> (Nil, s2)))))"

section \<open>Concrete runs\<close>

text \<open>The zero value \<open>&InstallSubcontextState{}\<close>, a request for build 9 of upload 10, and
  an environment in which every collaborator succeeds: no receipt, the source is an
  archive, the backend writes two files.\<close>

definition emptySubstate :: InstallSubcontextState where
  "emptySubstate = \<lparr>DownloadSessionId = [], IsAvailableLocally = False, InstallerInfoOf = None,
     SecondInstallerInfo = None, FirstInstallResult = None\<rparr>"

definition freshState :: state where
  "freshState = \<lparr>istate = emptySubstate, trace = []\<rparr>"

definition okParams :: MetaSubcontextState where
  "okParams = \<lparr>MGame = \<lparr>GameID = 1\<rparr>, MUpload = Some \<lparr>UploadID = 10, UploadSize = 2000\<rparr>,
     MBuild = Some \<lparr>BuildID = 9\<rparr>,
     MCredentials = \<lparr>Server = [], APIKey = ''key'', DownloadKey = 0\<rparr>,
     InstallFolder = ''install'', IgnoreInstallers = False, NoCave = True\<rparr>"

definition okEnv :: env where
  "okEnv = \<lparr>StageFolder = ''stage'', Base = (\<lambda>p. p), Join = concat, Dir = (\<lambda>p. p),
     ClientFromCredentials = (\<lambda>c. Inr 0),
     ReadReceipt = (\<lambda>f. Inr None),
     NewDownloadSession = (\<lambda>c g k. Inr ''session''),
     FindUpgrade = (\<lambda>c b u k. Inr []),
     sourceURL = (\<lambda>i p. ''source''),
     eos_Open = (\<lambda>site u. Inr (case site of OpenSource \<Rightarrow> 1 | OpenLocal w \<Rightarrow> 2)),
     UploadIsProbablyExternal = (\<lambda>u. False),
     GetInstallerInfo = (\<lambda>site f. Inr \<lparr>InfoType = InstallerTypeArchive\<rparr>),
     file_Seek = (\<lambda>f. None),
     file_Stat = (\<lambda>site f. Inr (''game.zip'', 100)),
     AssessDiskUsage = (\<lambda>f r p i. None),
     NotifyDownloadStarted = (\<lambda>w. None),
     NotifyDownloadSucceeded = (\<lambda>w. None),
     DownloadInstallSource = (\<lambda>w f p. None),
     GetManager = (\<lambda>t. Some 0),
     IsWindowsInstaller = (\<lambda>t. t = InstallerTypeOther ''nsis''),
     ctx_Done = (\<lambda>a. False),
     NotifyInstallStarted = (\<lambda>a. None),
     manager_Install = (\<lambda>a m f. Inr \<lparr>Files = [''a'', ''b'']\<rparr>),
     os_Open = (\<lambda>site p. Inr 3),
     os_Stat = (\<lambda>p. Some (External 0)),
     os_MkdirAll = (\<lambda>p. None),
     os_RemoveAll = (\<lambda>p. None),
     os_Rename = (\<lambda>a b. None),
     heal = (\<lambda>r i. None),
     commitInstall = (\<lambda>p. None),
     LoadContext = (\<lambda>f. None),
     oc_LoadMeta = okParams,
     oc_Load = emptySubstate,
     oc_Retire = None\<rparr>"

text \<open>A receipt for upload 10 at the given build.\<close>

definition receiptAt :: "int64 \<Rightarrow> Receipt" where
  "receiptAt b = \<lparr>ReceiptUpload = Some \<lparr>UploadID = 10, UploadSize = 2000\<rparr>,
     ReceiptBuild = Some \<lparr>BuildID = b\<rparr>, ReceiptFiles = []\<rparr>"

text \<open>A receipt for build 5 of the same upload, with an upgrade path whose patches add up
  to exactly the size of the upload (the entry of the old build is skipped).\<close>

definition upgradeEnv :: env where
  "upgradeEnv = okEnv\<lparr>ReadReceipt := (\<lambda>f. Inr (Some (receiptAt 5))),
     FindUpgrade := (\<lambda>c b u k. Inr [\<lparr>ItemID = 5, ItemPatchSize = 7777\<rparr>,
        \<lparr>ItemID = 7, ItemPatchSize = 1200\<rparr>, \<lparr>ItemID = 9, ItemPatchSize = 800\<rparr>])\<rparr>"

text \<open>The same receipt, the upgrade-path query failing.\<close>

definition queryFailsEnv :: env where
  "queryFailsEnv = okEnv\<lparr>ReadReceipt := (\<lambda>f. Inr (Some (receiptAt 5))),
     FindUpgrade := (\<lambda>c b u k. Inl (External 1))\<rparr>"

text \<open>A receipt for the requested build itself.\<close>

definition sameBuildEnv :: env where
  "sameBuildEnv = okEnv\<lparr>ReadReceipt := (\<lambda>f. Inr (Some (receiptAt 9)))\<rparr>"

section \<open>Observations on the trace\<close>

fun isFindUpgrade :: "event \<Rightarrow> bool" where
  "isFindUpgrade (EvFindUpgrade oldID uploadID downloadKey) = True"
| "isFindUpgrade e = False"

text \<open>
The guards of lines 188 and 190, negated: the run goes on to open the install source.
  (A receipt that names an upload while the request has none makes line 188 panic.)
\<close>

definition takesInstallPath :: "Receipt option \<Rightarrow> MetaSubcontextState \<Rightarrow> bool" where
  "takesInstallPath receiptIn params =
     (case receiptIn of
        None \<Rightarrow> True
      | Some r \<Rightarrow>
          (case ReceiptUpload r of
             None \<Rightarrow> True
           | Some receiptUpload \<Rightarrow>
               (case MUpload params of
                  None \<Rightarrow> False
                | Some upload \<Rightarrow>
                    UploadID receiptUpload \<noteq> UploadID upload
                    \<or> ReceiptBuild r = None \<or> MBuild params = None)))"

text \<open>
The receipt that lines 148 to 152 leave in \<open>receiptIn\<close>.
\<close>

definition receiptRead :: "env \<Rightarrow> MetaSubcontextState \<Rightarrow> Receipt option" where
  "receiptRead env params =
     (case ReadReceipt env (InstallFolder params) of Inl err \<Rightarrow> None | Inr r \<Rightarrow> r)"

text \<open>
The guard of line 257.
\<close>

definition isExternal :: "env \<Rightarrow> MetaSubcontextState \<Rightarrow> bool" where
  "isExternal env params = (MBuild params = None \<and> UploadIsProbablyExternal env (MUpload params))"

text \<open>
The message the branch of lines 318 to 321 logs with \<open>Errorf\<close>.
\<close>

definition unsupportedMsg :: string where
  "unsupportedMsg = ''Item is packaged in a way that isn't supported, refusing to install''"

text \<open>
The source probes as unsupported.
\<close>

definition unsupportedEnv :: env where
  "unsupportedEnv = okEnv\<lparr>GetInstallerInfo := (\<lambda>site f. Inr \<lparr>InfoType = InstallerTypeUnsupported\<rparr>)\<rparr>"

text \<open>
What the \<open>switch\<close> of lines 290 to 300 is expected to make of a probed classification
  when installers are ignored: archives and naked files are kept, anything else is naked.
\<close>

definition rewriteIgnored :: "InstallerInfo \<Rightarrow> InstallerInfo" where
  "rewriteIgnored probed =
     (if InfoType probed = InstallerTypeArchive \<or> InfoType probed = InstallerTypeNaked then probed
      else probed\<lparr>InfoType := InstallerTypeNaked\<rparr>)"

text \<open>
The same request, asking to ignore installers.
\<close>

definition ignoringParams :: MetaSubcontextState where
  "ignoringParams = okParams\<lparr>IgnoreInstallers := True\<rparr>"

text \<open>
A substate \<open>i'\<close> keeps what is set in \<open>i\<close>: a recorded session id, the local-copy flag,
  a cached classification other than \<open>unknown\<close>, the second classification and the first
  install result are the same in \<open>i'\<close>.
\<close>

definition keepsSetFields :: "InstallSubcontextState \<Rightarrow> InstallSubcontextState \<Rightarrow> bool" where
  "keepsSetFields i i' =
     ((DownloadSessionId i \<noteq> [] \<longrightarrow> DownloadSessionId i' = DownloadSessionId i)
      \<and> (IsAvailableLocally i \<longrightarrow> IsAvailableLocally i')
      \<and> (case InstallerInfoOf i of
            None \<Rightarrow> True
          | Some info \<Rightarrow> InfoType info = InstallerTypeUnknown \<or> InstallerInfoOf i' = Some info)
      \<and> (case SecondInstallerInfo i of
            None \<Rightarrow> True
          | Some info \<Rightarrow> SecondInstallerInfo i' = Some info)
      \<and> (case FirstInstallResult i of
            None \<Rightarrow> True
          | Some res \<Rightarrow> FirstInstallResult i' = Some res))"

text \<open>
The calls that compute a field of the substate, for a substate in which that field is
  already set.
\<close>

fun recomputes :: "InstallSubcontextState \<Rightarrow> event \<Rightarrow> bool" where
  "recomputes i EvNewDownloadSession = (DownloadSessionId i \<noteq> [])"
| "recomputes i (EvDownloadInstallSource who p) = IsAvailableLocally i"
| "recomputes i (EvGetInstallerInfo ProbeSource f) =
     (case InstallerInfoOf i of None \<Rightarrow> False | Some info \<Rightarrow> InfoType info \<noteq> InstallerTypeUnknown)"
| "recomputes i (EvGetInstallerInfo ProbeSingle f) = (SecondInstallerInfo i \<noteq> None)"
| "recomputes i (EvTryInstall FirstTry) = (FirstInstallResult i \<noteq> None)"
| "recomputes i (EvTryInstall LocalRetry) = (FirstInstallResult i \<noteq> None)"
| "recomputes i (EvInstall FirstTry m f) = (FirstInstallResult i \<noteq> None)"
| "recomputes i (EvInstall LocalRetry m f) = (FirstInstallResult i \<noteq> None)"
| "recomputes i e = False"

text \<open>
A checkpoint written by \<open>oc.Save\<close> keeps what was set in \<open>i\<close>.
\<close>

fun checkpointKeeps :: "InstallSubcontextState \<Rightarrow> event \<Rightarrow> bool" where
  "checkpointKeeps i (EvSave i') = keepsSetFields i i'"
| "checkpointKeeps i e = True"

text \<open>
The calls a run may make from substate \<open>i\<close>: anything but retiring the context,
  recomputing a set field, or saving a checkpoint that lost one.
\<close>

definition okEvent :: "InstallSubcontextState \<Rightarrow> event \<Rightarrow> bool" where
  "okEvent i e = (e \<noteq> EvRetire \<and> \<not> recomputes i e \<and> checkpointKeeps i e)"

text \<open>
\<open>s'\<close> is reached from \<open>s\<close> by appending such calls to the trace and keeping the set fields.
\<close>

definition step :: "state \<Rightarrow> state \<Rightarrow> bool" where
  "step s s' =
     (keepsSetFields (istate s) (istate s')
      \<and> take (length (trace s)) (trace s') = trace s
      \<and> list_all (okEvent (istate s)) (drop (length (trace s)) (trace s')))"

text \<open>
The operation is cancelled before the backend runs.
\<close>

definition cancelledEnv :: env where
  "cancelledEnv = okEnv\<lparr>ctx_Done := (\<lambda>att. True)\<rparr>"



text \<open>
The invocations of the closure \<open>tryInstall\<close>, and those of a backend's \<open>Install\<close>.
\<close>

fun isTry :: "event \<Rightarrow> bool" where
  "isTry (EvTryInstall att) = True"
| "isTry e = False"

fun isBackendInstall :: "event \<Rightarrow> bool" where
  "isBackendInstall (EvInstall att mgr f) = True"
| "isBackendInstall e = False"

text \<open>
What one run of \<open>tryInstall\<close> adds to the backend invocations: the call of
  \<open>manager.Install\<close>, unless the operation is cancelled or the notification fails first.
\<close>

definition backendCalls :: "env \<Rightarrow> attempt \<Rightarrow> manager \<Rightarrow> file \<Rightarrow> event list" where
  "backendCalls env att mgr f =
     (if \<not> ctx_Done env att \<and> NotifyInstallStarted env att = None then [EvInstall att mgr f] else [])"

text \<open>
The backend asks for a local file on the first run and succeeds afterwards.
\<close>

definition needsLocalEnv :: env where
  "needsLocalEnv = okEnv\<lparr>manager_Install :=
     (\<lambda>att m f. if att = FirstTry then Inl ErrNeedLocal else Inr \<lparr>Files = [''a'', ''b'']\<rparr>)\<rparr>"

text \<open>
The same, the forced-local copy failing (the source's \<open>Stat\<close> fails).
\<close>

definition copyFailsEnv :: env where
  "copyFailsEnv = needsLocalEnv\<lparr>file_Stat :=
     (\<lambda>site f. if site = StatForce FromRetry then Inl (External 2) else Inr (''game.zip'', 100))\<rparr>"

text \<open>
The invocations of \<open>tryInstall\<close> for the nested installer (line 523).
\<close>

fun isNestedTry :: "event \<Rightarrow> bool" where
  "isNestedTry (EvTryInstall NestedTry) = True"
| "isNestedTry e = False"






section \<open>Basic facts about the state\<close>

lemma istate_emit [simp]: "istate (emit e s) = istate s"
  by (simp add: emit_def)

lemma trace_emit [simp]: "trace (emit e s) = trace s @ [e]"
  by (simp add: emit_def)

lemma istate_oc_Save [simp]: "istate (oc_Save s) = istate s"
  by (simp add: oc_Save_def)

lemma trace_oc_Save [simp]: "trace (oc_Save s) = trace s @ [EvSave (istate s)]"
  by (simp add: oc_Save_def)

section \<open>Strategy selection\<close>

text \<open>Whatever the install path does, the strategy of the result it hands on is the one
  it started from; the same-upload branch always hands on \<open>Heal\<close>.\<close>

lemma forceExternal_Strategy:
  "forceExternal env params a res file s = (Inr (file', res'), s') \<Longrightarrow> Strategy res' = Strategy res"
  by (auto simp: forceExternal_def Let_def split: if_splits prod.splits sum.splits)

lemma prepareOpened_Strategy:
  "prepareOpened env params a res file s = (RunTask res', s') \<Longrightarrow> Strategy res' = Strategy res"
  by (auto simp: prepareOpened_def split: prod.splits sum.splits option.splits if_splits
      dest: forceExternal_Strategy)

lemma installFromSource_Strategy:
  "installFromSource env params a res s = ((RunTask res', d), s') \<Longrightarrow> Strategy res' = Strategy res"
  by (auto simp: installFromSource_def Let_def split: prod.splits sum.splits dest: prepareOpened_Strategy)

lemma sameUploadBuilds_Strategy:
  "sameUploadBuilds env params client res upload oldID newID s = (RunTask res', s')
   \<Longrightarrow> Strategy res' = InstallPerformStrategyHeal"
  by (auto simp: sameUploadBuilds_def Let_def split: if_splits sum.splits)

text \<open>No run of \<open>InstallPrepare\<close> hands \<open>Install\<close> to its task: the strategy is \<open>Heal\<close>,
  or it is still the zero value \<open>None\<close> of the freshly allocated result.\<close>

lemma prepareBody_Strategy:
  assumes "prepareBody env params a s = ((RunTask res, d), s')"
  shows "Strategy res = InstallPerformStrategyHeal \<or> Strategy res = InstallPerformStrategyNone"
  using assms
  by (auto simp: prepareBody_def selectStrategy_def emptyInstallPrepareResult_def
      InstallPerformStrategyNone_def
      split: prod.splits sum.splits option.splits if_splits
      dest: sameUploadBuilds_Strategy installFromSource_Strategy)

text \<open>
  C1. The claim: a run of \<open>InstallPrepare\<close> that reaches its task without choosing
  \<open>Heal\<close> hands it the strategy \<open>Install\<close>, never \<open>None\<close>. The source never assigns
  \<open>InstallPerformStrategyInstall\<close>: with no receipt, a successful probe and an archive
  source, the task is run with \<open>Strategy = InstallPerformStrategyNone\<close>, which is not
  \<open>Install\<close>.
\<close>

theorem fresh_install_hands_strategy_None:
  "fst (prepareBody okEnv okParams True freshState) =
     (RunTask \<lparr>File = Some 1, ReceiptIn = None, Strategy = InstallPerformStrategyNone\<rparr>, Some 1)
   \<and> InstallPerformStrategyNone \<noteq> InstallPerformStrategyInstall
   \<and> InstallPrepare okEnv okParams True task freshState =
       (case task \<lparr>File = Some 1, ReceiptIn = None, Strategy = InstallPerformStrategyNone\<rparr>
               (snd (prepareBody okEnv okParams True freshState)) of
          (r, s'') \<Rightarrow> (r, emit (EvClose 1) s''))"
  by (simp add: InstallPrepare_def runDeferred_def prepareBody_def readReceiptIn_def
      ensureDownloadSession_def selectStrategy_def installFromSource_def prepareOpened_def
      forceExternal_def probeSource_def emptyInstallPrepareResult_def Let_def okEnv_def
      okParams_def freshState_def emptySubstate_def InstallPerformStrategyNone_def
      InstallPerformStrategyInstall_def)

text \<open>
  C2. An upgrade decision: the client is built, a download session exists or is created,
  the receipt and the request name the same upload, the requested build id is greater
  than the installed one, and the upgrade-path query succeeds. Whenever
  \<open>totalUpgradeSize\<close> (the sum the loop computes) is greater than or equal to the full
  upload size, the task is run with \<open>Strategy = Heal\<close>; the case of equality is included.
\<close>

theorem upgrade_at_least_full_size_heals:
  assumes "ClientFromCredentials env (MCredentials params) = Inr client"
    and "ReadReceipt env (InstallFolder params) = Inr (Some receiptIn)"
    and "DownloadSessionId (istate s) \<noteq> [] \<or>
         NewDownloadSession env client (GameID (MGame params)) (DownloadKey (MCredentials params)) = Inr uuid"
    and "ReceiptUpload receiptIn = Some receiptUpload"
    and "MUpload params = Some upload"
    and "UploadID receiptUpload = UploadID upload"
    and "ReceiptBuild receiptIn = Some oldBuild"
    and "MBuild params = Some newBuild"
    and "BuildID oldBuild <s BuildID newBuild"
    and "FindUpgrade env client (BuildID oldBuild) (UploadID upload) (DownloadKey (MCredentials params)) = Inr upgradePath"
    and "UploadSize upload \<le>s upgradeSizeLoop (BuildID oldBuild) upgradePath 0"
  shows "\<exists>s'. prepareBody env params allowDownloads s =
           ((RunTask \<lparr>File = None, ReceiptIn = Some receiptIn, Strategy = InstallPerformStrategyHeal\<rparr>, None), s')
         \<and> InstallPrepare env params allowDownloads task s =
           task \<lparr>File = None, ReceiptIn = Some receiptIn, Strategy = InstallPerformStrategyHeal\<rparr> s'"
  using assms
  by (auto simp: InstallPrepare_def runDeferred_def prepareBody_def readReceiptIn_def
      ensureDownloadSession_def selectStrategy_def sameUploadBuilds_def
      emptyInstallPrepareResult_def Let_def)

theorem upgrade_at_least_full_size_heals_witness:
  "upgradeSizeLoop 5 [\<lparr>ItemID = 5, ItemPatchSize = 7777\<rparr>,
        \<lparr>ItemID = 7, ItemPatchSize = 1200\<rparr>, \<lparr>ItemID = 9, ItemPatchSize = 800\<rparr>] 0
     = UploadSize \<lparr>UploadID = 10, UploadSize = 2000\<rparr>
   \<and> (\<exists>s'. prepareBody upgradeEnv okParams True freshState =
           ((RunTask \<lparr>File = None, ReceiptIn = Some (receiptAt 5), Strategy = InstallPerformStrategyHeal\<rparr>, None), s')
         \<and> InstallPrepare upgradeEnv okParams True (\<lambda>res st. (Nil, st)) freshState =
           (\<lambda>res st. (Nil, st)) \<lparr>File = None, ReceiptIn = Some (receiptAt 5), Strategy = InstallPerformStrategyHeal\<rparr> s')"
  using upgrade_at_least_full_size_heals [where env = upgradeEnv and params = okParams and client = 0
      and receiptIn = "receiptAt 5" and s = freshState and uuid = "''session''"
      and receiptUpload = "\<lparr>UploadID = 10, UploadSize = 2000\<rparr>"
      and upload = "\<lparr>UploadID = 10, UploadSize = 2000\<rparr>"
      and oldBuild = "\<lparr>BuildID = 5\<rparr>" and newBuild = "\<lparr>BuildID = 9\<rparr>"
      and upgradePath = "[\<lparr>ItemID = 5, ItemPatchSize = 7777\<rparr>,
        \<lparr>ItemID = 7, ItemPatchSize = 1200\<rparr>, \<lparr>ItemID = 9, ItemPatchSize = 800\<rparr>]"
      and allowDownloads = True and task = "\<lambda>res st. (Nil, st)"]
  by (simp add: upgradeEnv_def okEnv_def okParams_def receiptAt_def freshState_def emptySubstate_def
      word_sless_alt word_sle_eq)

text \<open>
  C3. An upgrade attempt (same upload, requested build id greater than the installed one)
  whose upgrade-path query returns an error: \<open>InstallPrepare\<close> runs the task with
  \<open>Strategy = Heal\<close> and returns what the task returns, so the query's error is not
  returned; the failure is logged with \<open>Warnf\<close>.
\<close>

theorem query_failure_heals:
  assumes "ClientFromCredentials env (MCredentials params) = Inr client"
    and "ReadReceipt env (InstallFolder params) = Inr (Some receiptIn)"
    and "DownloadSessionId (istate s) \<noteq> [] \<or>
         NewDownloadSession env client (GameID (MGame params)) (DownloadKey (MCredentials params)) = Inr uuid"
    and "ReceiptUpload receiptIn = Some receiptUpload"
    and "MUpload params = Some upload"
    and "UploadID receiptUpload = UploadID upload"
    and "ReceiptBuild receiptIn = Some oldBuild"
    and "MBuild params = Some newBuild"
    and "BuildID oldBuild <s BuildID newBuild"
    and "FindUpgrade env client (BuildID oldBuild) (UploadID upload) (DownloadKey (MCredentials params)) = Inl err"
  shows "\<exists>s'. prepareBody env params allowDownloads s =
           ((RunTask \<lparr>File = None, ReceiptIn = Some receiptIn, Strategy = InstallPerformStrategyHeal\<rparr>, None), s')
         \<and> InstallPrepare env params allowDownloads task s =
           task \<lparr>File = None, ReceiptIn = Some receiptIn, Strategy = InstallPerformStrategyHeal\<rparr> s'
         \<and> EvWarnf ''Could not find upgrade path'' \<in> set (trace s')"
  using assms
  by (auto simp: InstallPrepare_def runDeferred_def prepareBody_def readReceiptIn_def
      ensureDownloadSession_def selectStrategy_def sameUploadBuilds_def
      emptyInstallPrepareResult_def Let_def)

theorem query_failure_heals_witness:
  "\<exists>s'. prepareBody queryFailsEnv okParams True freshState =
           ((RunTask \<lparr>File = None, ReceiptIn = Some (receiptAt 5), Strategy = InstallPerformStrategyHeal\<rparr>, None), s')
         \<and> InstallPrepare queryFailsEnv okParams True (\<lambda>res st. (Nil, st)) freshState =
           (\<lambda>res st. (Nil, st)) \<lparr>File = None, ReceiptIn = Some (receiptAt 5), Strategy = InstallPerformStrategyHeal\<rparr> s'
         \<and> EvWarnf ''Could not find upgrade path'' \<in> set (trace s')"
  using query_failure_heals [where env = queryFailsEnv and params = okParams and client = 0
      and receiptIn = "receiptAt 5" and s = freshState and uuid = "''session''"
      and receiptUpload = "\<lparr>UploadID = 10, UploadSize = 2000\<rparr>"
      and upload = "\<lparr>UploadID = 10, UploadSize = 2000\<rparr>"
      and oldBuild = "\<lparr>BuildID = 5\<rparr>" and newBuild = "\<lparr>BuildID = 9\<rparr>"
      and err = "External 1"
      and allowDownloads = True and task = "\<lambda>res st. (Nil, st)"]
  by (simp add: queryFailsEnv_def okEnv_def okParams_def receiptAt_def freshState_def emptySubstate_def
      word_sless_alt word_sle_eq)

text \<open>
  C4. The receipt and the request name the same upload and the requested build id is less
  than or equal to the installed one (same version or downgrade): the task is run with
  \<open>Strategy = Heal\<close>, and by then no \<open>FindUpgrade\<close> call has been added to the trace.
\<close>

theorem no_upgrade_heals_without_query:
  assumes "ClientFromCredentials env (MCredentials params) = Inr client"
    and "ReadReceipt env (InstallFolder params) = Inr (Some receiptIn)"
    and "DownloadSessionId (istate s) \<noteq> [] \<or>
         NewDownloadSession env client (GameID (MGame params)) (DownloadKey (MCredentials params)) = Inr uuid"
    and "ReceiptUpload receiptIn = Some receiptUpload"
    and "MUpload params = Some upload"
    and "UploadID receiptUpload = UploadID upload"
    and "ReceiptBuild receiptIn = Some oldBuild"
    and "MBuild params = Some newBuild"
    and "BuildID newBuild \<le>s BuildID oldBuild"
  shows "\<exists>s'. prepareBody env params allowDownloads s =
           ((RunTask \<lparr>File = None, ReceiptIn = Some receiptIn, Strategy = InstallPerformStrategyHeal\<rparr>, None), s')
         \<and> InstallPrepare env params allowDownloads task s =
           task \<lparr>File = None, ReceiptIn = Some receiptIn, Strategy = InstallPerformStrategyHeal\<rparr> s'
         \<and> filter isFindUpgrade (trace s') = filter isFindUpgrade (trace s)"
  using assms
  by (auto simp: InstallPrepare_def runDeferred_def prepareBody_def readReceiptIn_def
      ensureDownloadSession_def selectStrategy_def sameUploadBuilds_def
      emptyInstallPrepareResult_def Let_def)

theorem no_upgrade_heals_without_query_witness:
  "\<exists>s'. prepareBody sameBuildEnv okParams True freshState =
           ((RunTask \<lparr>File = None, ReceiptIn = Some (receiptAt 9), Strategy = InstallPerformStrategyHeal\<rparr>, None), s')
         \<and> InstallPrepare sameBuildEnv okParams True (\<lambda>res st. (Nil, st)) freshState =
           (\<lambda>res st. (Nil, st)) \<lparr>File = None, ReceiptIn = Some (receiptAt 9), Strategy = InstallPerformStrategyHeal\<rparr> s'
         \<and> filter isFindUpgrade (trace s') = filter isFindUpgrade (trace freshState)"
  using no_upgrade_heals_without_query [where env = sameBuildEnv and params = okParams and client = 0
      and receiptIn = "receiptAt 9" and s = freshState and uuid = "''session''"
      and receiptUpload = "\<lparr>UploadID = 10, UploadSize = 2000\<rparr>"
      and upload = "\<lparr>UploadID = 10, UploadSize = 2000\<rparr>"
      and oldBuild = "\<lparr>BuildID = 9\<rparr>" and newBuild = "\<lparr>BuildID = 9\<rparr>"
      and allowDownloads = True and task = "\<lambda>res st. (Nil, st)"]
  by (simp add: sameBuildEnv_def okEnv_def okParams_def receiptAt_def freshState_def emptySubstate_def
      word_sless_alt word_sle_eq)

section \<open>The unsupported-packaging check\<close>

lemma dlErr_istate: "dlErr env who file p s = (r, s') \<Longrightarrow> istate s' = istate s"
  by (auto simp: dlErr_def Let_def split: option.splits)

lemma dlErr_fst:
  "dlErr env who f p s = (r, s1) \<Longrightarrow> dlErr env who f p s' = (r', s1') \<Longrightarrow> r = r'"
  by (auto simp: dlErr_def Let_def split: option.splits)

lemma doForceLocal_fst:
  assumes "IsAvailableLocally (istate s) = IsAvailableLocally (istate s')"
  shows "fst (doForceLocal env who f s) = fst (doForceLocal env who f s')"
proof (cases "file_Stat env (StatForce who) f")
  case (Inl err)
  then show ?thesis by (simp add: doForceLocal_def)
next
  case (Inr stats)
  show ?thesis
  proof (cases "IsAvailableLocally (istate s)")
    case True
    with Inr assms show ?thesis
      by (simp add: doForceLocal_def Let_def split: sum.splits)
  next
    case False
    obtain r s1 where d: "dlErr env who f (Join env [StageFolder env, ''install-source'', Base env (fst stats)]) s = (r, s1)"
      by (cases "dlErr env who f (Join env [StageFolder env, ''install-source'', Base env (fst stats)]) s")
    obtain r' s1' where d': "dlErr env who f (Join env [StageFolder env, ''install-source'', Base env (fst stats)]) s' = (r', s1')"
      by (cases "dlErr env who f (Join env [StageFolder env, ''install-source'', Base env (fst stats)]) s'")
    have "r = r'" using d d' by (rule dlErr_fst)
    with Inr False assms d d' show ?thesis
      by (simp add: doForceLocal_def Let_def split: sum.splits option.splits)
  qed
qed

lemma doForceLocal_istate:
  "doForceLocal env who file s = (r, s') \<Longrightarrow>
   istate s' = istate s \<or> istate s' = (istate s)\<lparr>IsAvailableLocally := True\<rparr>"
  by (auto simp: doForceLocal_def Let_def split: sum.splits prod.splits option.splits if_splits
      dest: dlErr_istate)

lemma doForceLocal_InstallerInfoOf:
  "doForceLocal env who file s = (r, s') \<Longrightarrow> InstallerInfoOf (istate s') = InstallerInfoOf (istate s)"
  by (auto dest: doForceLocal_istate)

lemma forceExternal_plain:
  "\<not> isExternal env params \<Longrightarrow> forceExternal env params a res file s = (Inr (file, res), s)"
  by (auto simp: forceExternal_def isExternal_def)

lemma forceExternal_forced:
  assumes "isExternal env params" and "a" and "fst (doForceLocal env FromPrepare f s0) = Inr lf"
    and "IsAvailableLocally (istate s) = IsAvailableLocally (istate s0)"
  shows "\<exists>s'. forceExternal env params a res f s = (Inr (lf, res\<lparr>File := Some lf\<rparr>), s')
     \<and> InstallerInfoOf (istate s') = InstallerInfoOf (istate s)"
proof -
  let ?s2 = "emit (EvWarnf ''Forcing download before we check anything else.'')
               (emit (EvWarnf ''Dealing with an external upload, all bets are off.'') s)"
  have "fst (doForceLocal env FromPrepare f ?s2) = fst (doForceLocal env FromPrepare f s0)"
    by (rule doForceLocal_fst) (simp add: assms(4))
  then obtain s3 where d: "doForceLocal env FromPrepare f ?s2 = (Inr lf, s3)"
    using assms(3) by (cases "doForceLocal env FromPrepare f ?s2") simp
  from d have "InstallerInfoOf (istate s3) = InstallerInfoOf (istate s)"
    by (auto dest: doForceLocal_InstallerInfoOf)
  with d assms(1,2) show ?thesis
    by (simp add: forceExternal_def isExternal_def Let_def)
qed

text \<open>
  On the install path the task is only ever run with a classification in effect that is
  not \<open>unsupported\<close>, whatever the collaborators answer.
\<close>

lemma prepareOpened_supported:
  "prepareOpened env params a res f s = (RunTask res', s') \<Longrightarrow>
   map_option InfoType (InstallerInfoOf (istate s')) \<noteq> Some InstallerTypeUnsupported"
  by (auto simp: prepareOpened_def split: prod.splits sum.splits option.splits if_splits)

lemma installFromSource_supported:
  "installFromSource env params a res s = ((RunTask res', d), s') \<Longrightarrow>
   map_option InfoType (InstallerInfoOf (istate s')) \<noteq> Some InstallerTypeUnsupported"
  by (auto simp: installFromSource_def Let_def split: prod.splits sum.splits
      dest: prepareOpened_supported)

lemma unsupported_never_reaches_task:
  assumes "prepareBody env params a s = ((RunTask res, d), s')"
    and "Strategy res \<noteq> InstallPerformStrategyHeal"
  shows "map_option InfoType (InstallerInfoOf (istate s')) \<noteq> Some InstallerTypeUnsupported"
  using assms
  by (auto simp: prepareBody_def selectStrategy_def
      split: prod.splits sum.splits option.splits if_splits
      dest: sameUploadBuilds_Strategy installFromSource_supported)

lemma probeSource_cached:
  assumes "InstallerInfoOf (istate s) = Some info" and "InfoType info \<noteq> InstallerTypeUnknown"
  shows "probeSource env params receiptIn f s = (None, s)"
  using assms by (simp add: probeSource_def)

lemma probeSource_fresh:
  assumes "InstallerInfoOf (istate s) = None \<or> map_option InfoType (InstallerInfoOf (istate s)) = Some InstallerTypeUnknown"
    and "GetInstallerInfo env ProbeSource f = Inr probed"
    and "file_Seek env f = None"
    and "\<not> IgnoreInstallers params"
    and "AssessDiskUsage env f receiptIn (InstallFolder params) probed = None"
  shows "\<exists>s'. probeSource env params receiptIn f s = (None, s') \<and> InstallerInfoOf (istate s') = Some probed"
  using assms by (auto simp: probeSource_def Let_def)

lemma ensureDownloadSession_ok:
  assumes "DownloadSessionId (istate s) \<noteq> [] \<or>
     NewDownloadSession env client (GameID (MGame params)) (DownloadKey (MCredentials params)) = Inr uuid"
  shows "\<exists>s'. ensureDownloadSession env params client s = (None, s')
     \<and> InstallerInfoOf (istate s') = InstallerInfoOf (istate s)
     \<and> IsAvailableLocally (istate s') = IsAvailableLocally (istate s)"
  using assms by (auto simp: ensureDownloadSession_def Let_def)

lemma readReceiptIn_eq:
  "\<exists>s'. readReceiptIn env params s = (receiptRead env params, s') \<and> istate s' = istate s"
  by (auto simp: readReceiptIn_def receiptRead_def Let_def split: sum.splits)

lemma selectStrategy_install_path:
  "takesInstallPath (ReceiptIn res) params \<Longrightarrow>
   selectStrategy env params a client res s = installFromSource env params a res s"
  by (auto simp: selectStrategy_def takesInstallPath_def split: option.splits)

text \<open>
A run on the install path whose client, session and source are available comes down to
  \<open>prepareOpened\<close>, from a state with the same cached classification and local-copy flag.
\<close>

lemma prepareBody_install_path:
  assumes "ClientFromCredentials env (MCredentials params) = Inr client"
    and "DownloadSessionId (istate s) \<noteq> [] \<or>
         NewDownloadSession env client (GameID (MGame params)) (DownloadKey (MCredentials params)) = Inr uuid"
    and "takesInstallPath (receiptRead env params) params"
    and "\<And>i. eos_Open env OpenSource (sourceURL env i params) = Inr file0"
  shows "\<exists>s1. InstallerInfoOf (istate s1) = InstallerInfoOf (istate s)
      \<and> IsAvailableLocally (istate s1) = IsAvailableLocally (istate s)
      \<and> prepareBody env params a s =
          (case prepareOpened env params a
                  \<lparr>File = Some file0, ReceiptIn = receiptRead env params, Strategy = 0\<rparr> file0 s1 of
             (out, s2) \<Rightarrow> ((out, Some file0), s2))"
proof -
  obtain s2 where r: "readReceiptIn env params s = (receiptRead env params, s2)" "istate s2 = istate s"
    using readReceiptIn_eq by blast
  obtain s3 where e: "ensureDownloadSession env params client s2 = (None, s3)"
      "InstallerInfoOf (istate s3) = InstallerInfoOf (istate s2)"
      "IsAvailableLocally (istate s3) = IsAvailableLocally (istate s2)"
    using ensureDownloadSession_ok [of s2 env client params uuid] assms(2) r(2) by auto
  let ?s1 = "emit (EvOpen OpenSource (sourceURL env (istate s3) params)) s3"
  have "prepareBody env params a s =
          (case prepareOpened env params a
                  \<lparr>File = Some file0, ReceiptIn = receiptRead env params, Strategy = 0\<rparr> file0 ?s1 of
             (out, s2) \<Rightarrow> ((out, Some file0), s2))"
    using assms(1,3,4) r e
    by (simp add: prepareBody_def selectStrategy_install_path emptyInstallPrepareResult_def
        installFromSource_def Let_def)
  moreover have "InstallerInfoOf (istate ?s1) = InstallerInfoOf (istate s)"
    "IsAvailableLocally (istate ?s1) = IsAvailableLocally (istate s)"
    using e r by simp_all
  ultimately show ?thesis by blast
qed

text \<open>
C5. The run takes the install path and reaches the check of line 318: the client is
  built, the download session exists or is created, the source opens, and for an external
  upload the forced download gives the file in effect. If the installer info in effect is
  \<open>Unsupported\<close>, whether cached in the substate or freshly probed and recorded,
  \<open>InstallPrepare\<close> returns \<open>errors.WithStack(CodeUnsupportedPackaging)\<close>, whose cause is
  \<open>CodeUnsupportedPackaging\<close>; the result does not depend on the task, which is not run.
\<close>

theorem unsupported_packaging_is_terminal:
  assumes "ClientFromCredentials env (MCredentials params) = Inr client"
    and "DownloadSessionId (istate s) \<noteq> [] \<or>
         NewDownloadSession env client (GameID (MGame params)) (DownloadKey (MCredentials params)) = Inr uuid"
    and "takesInstallPath (receiptRead env params) params"
    and "\<And>i. eos_Open env OpenSource (sourceURL env i params) = Inr file0"
    and "(\<not> isExternal env params \<and> f = file0)
         \<or> (isExternal env params \<and> allowDownloads \<and> fst (doForceLocal env FromPrepare file0 s) = Inr f)"
    and "(InstallerInfoOf (istate s) = Some info \<and> InfoType info = InstallerTypeUnsupported)
         \<or> ((InstallerInfoOf (istate s) = None
               \<or> map_option InfoType (InstallerInfoOf (istate s)) = Some InstallerTypeUnknown)
             \<and> \<not> IgnoreInstallers params
             \<and> GetInstallerInfo env ProbeSource f = Inr probed
             \<and> InfoType probed = InstallerTypeUnsupported
             \<and> file_Seek env f = None
             \<and> AssessDiskUsage env f (receiptRead env params) (InstallFolder params) probed = None)"
  shows "\<exists>s'. prepareBody env params allowDownloads s =
            ((Return (Err (WithStack CodeUnsupportedPackaging)), Some file0), s')
         \<and> InstallPrepare env params allowDownloads task s =
            (Err (WithStack CodeUnsupportedPackaging), emit (EvClose file0) s')
         \<and> Cause (WithStack CodeUnsupportedPackaging) = CodeUnsupportedPackaging"
proof -
  let ?res0 = "\<lparr>File = Some file0, ReceiptIn = receiptRead env params, Strategy = 0\<rparr>"
  obtain s1 where s1: "InstallerInfoOf (istate s1) = InstallerInfoOf (istate s)"
      "IsAvailableLocally (istate s1) = IsAvailableLocally (istate s)"
      "prepareBody env params allowDownloads s =
          (case prepareOpened env params allowDownloads ?res0 file0 s1 of
             (out, s2) \<Rightarrow> ((out, Some file0), s2))"
    using prepareBody_install_path [OF assms(1-4)] by blast
  obtain res s4 where s4: "forceExternal env params allowDownloads ?res0 file0 s1 = (Inr (f, res), s4)"
      "InstallerInfoOf (istate s4) = InstallerInfoOf (istate s)"
      "ReceiptIn res = receiptRead env params"
  proof (cases "isExternal env params")
    case False
    with assms(5) s1(1) that show ?thesis
      using forceExternal_plain [of env params allowDownloads ?res0 file0 s1] by auto
  next
    case True
    with assms(5) have "allowDownloads" "fst (doForceLocal env FromPrepare file0 s) = Inr f" by auto
    from forceExternal_forced [OF True this s1(2), of ?res0] s1(1) that show ?thesis by auto
  qed
  obtain s5 where s5: "probeSource env params (receiptRead env params) f s4 = (None, s5)"
      "map_option InfoType (InstallerInfoOf (istate s5)) = Some InstallerTypeUnsupported"
    using assms(6)
  proof
    assume c: "InstallerInfoOf (istate s) = Some info \<and> InfoType info = InstallerTypeUnsupported"
    then have "probeSource env params (receiptRead env params) f s4 = (None, s4)"
      using s4(2) by (intro probeSource_cached [of _ info]) auto
    with c s4(2) that show ?thesis by auto
  next
    assume c: "(InstallerInfoOf (istate s) = None
               \<or> map_option InfoType (InstallerInfoOf (istate s)) = Some InstallerTypeUnknown)
             \<and> \<not> IgnoreInstallers params
             \<and> GetInstallerInfo env ProbeSource f = Inr probed
             \<and> InfoType probed = InstallerTypeUnsupported
             \<and> file_Seek env f = None
             \<and> AssessDiskUsage env f (receiptRead env params) (InstallFolder params) probed = None"
    then obtain s' where "probeSource env params (receiptRead env params) f s4 = (None, s')"
        "InstallerInfoOf (istate s') = Some probed"
      using probeSource_fresh [of s4 env f probed params "receiptRead env params"] s4(2) by auto
    with c that show ?thesis by auto
  qed
  let ?s' = "emit (EvErrorf ''Item is packaged in a way that isn't supported, refusing to install'') s5"
  have body: "prepareBody env params allowDownloads s =
            ((Return (Err (WithStack CodeUnsupportedPackaging)), Some file0), ?s')"
    using s1(3) s4(1,3) s5 by (simp add: prepareOpened_def)
  then have "InstallPrepare env params allowDownloads task s =
            (Err (WithStack CodeUnsupportedPackaging), emit (EvClose file0) ?s')"
    by (simp add: InstallPrepare_def runDeferred_def)
  with body show ?thesis by simp
qed

theorem unsupported_packaging_is_terminal_witness:
  "\<exists>s'. prepareBody unsupportedEnv okParams True freshState =
            ((Return (Err (WithStack CodeUnsupportedPackaging)), Some 1), s')
         \<and> InstallPrepare unsupportedEnv okParams True (\<lambda>res st. (Nil, st)) freshState =
            (Err (WithStack CodeUnsupportedPackaging), emit (EvClose 1) s')
         \<and> Cause (WithStack CodeUnsupportedPackaging) = CodeUnsupportedPackaging"
  using unsupported_packaging_is_terminal [where env = unsupportedEnv and params = okParams
      and client = 0 and s = freshState and uuid = "''session''" and ?file0.0 = 1 and f = 1
      and allowDownloads = True and probed = "\<lparr>InfoType = InstallerTypeUnsupported\<rparr>"
      and task = "\<lambda>res st. (Nil, st)"]
  by (simp add: unsupportedEnv_def okEnv_def okParams_def freshState_def emptySubstate_def
      takesInstallPath_def receiptRead_def isExternal_def)

lemma probeSource_ignoring:
  assumes "IgnoreInstallers params"
    and "InstallerInfoOf (istate s) = None \<or> map_option InfoType (InstallerInfoOf (istate s)) = Some InstallerTypeUnknown"
    and "probeSource env params receiptIn f s = (None, s')"
  shows "\<exists>probed. GetInstallerInfo env ProbeSource f = Inr probed
      \<and> InstallerInfoOf (istate s') = Some (rewriteIgnored probed)"
  using assms
  by (auto simp: probeSource_def Let_def rewriteIgnored_def
      split: sum.splits option.splits InstallerType.splits)

lemma rewriteIgnored_type:
  "InfoType (rewriteIgnored probed) = InstallerTypeArchive \<or> InfoType (rewriteIgnored probed) = InstallerTypeNaked"
  by (simp add: rewriteIgnored_def)

lemma probeSource_Errorf:
  "probeSource env params receiptIn f s = (r, s') \<Longrightarrow>
   EvErrorf m \<in> set (trace s') \<Longrightarrow> EvErrorf m \<in> set (trace s)"
  by (auto simp: probeSource_def Let_def split: sum.splits option.splits if_splits)

lemma dlErr_Errorf:
  "dlErr env who f p s = (r, s') \<Longrightarrow> EvErrorf m \<in> set (trace s') \<Longrightarrow> EvErrorf m \<in> set (trace s)"
  by (auto simp: dlErr_def Let_def split: option.splits)

lemma doForceLocal_Errorf:
  "doForceLocal env who f s = (r, s') \<Longrightarrow> EvErrorf m \<in> set (trace s') \<Longrightarrow> EvErrorf m \<in> set (trace s)"
  by (auto simp: doForceLocal_def Let_def split: sum.splits prod.splits option.splits if_splits
      dest: dlErr_Errorf)

lemma forceExternal_Errorf:
  "forceExternal env params a res f s = (r, s') \<Longrightarrow>
   EvErrorf m \<in> set (trace s') \<Longrightarrow> EvErrorf m \<in> set (trace s)"
  by (auto simp: forceExternal_def Let_def split: sum.splits prod.splits if_splits
      dest: doForceLocal_Errorf)

lemma forceExternal_InstallerInfoOf:
  "forceExternal env params a res f s = (r, s') \<Longrightarrow>
   InstallerInfoOf (istate s') = InstallerInfoOf (istate s)"
  by (auto simp: forceExternal_def Let_def split: sum.splits prod.splits if_splits
      dest: doForceLocal_InstallerInfoOf)

lemma prepareOpened_ignoring:
  assumes "IgnoreInstallers params"
    and "InstallerInfoOf (istate s) = None \<or> map_option InfoType (InstallerInfoOf (istate s)) = Some InstallerTypeUnknown"
    and "prepareOpened env params a res f s = (out, s')"
    and "EvErrorf unsupportedMsg \<in> set (trace s')"
  shows "EvErrorf unsupportedMsg \<in> set (trace s)"
proof (cases "forceExternal env params a res f s")
  case (Pair r s4)
  note fe = this
  show ?thesis
  proof (cases r)
    case (Inl x)
    with fe assms(3,4) show ?thesis
      by (auto simp: prepareOpened_def dest: forceExternal_Errorf)
  next
    case (Inr fr)
    obtain f' res' where fr: "fr = (f', res')" by (cases fr)
    have i4: "InstallerInfoOf (istate s4) = None \<or> map_option InfoType (InstallerInfoOf (istate s4)) = Some InstallerTypeUnknown"
      using forceExternal_InstallerInfoOf [OF fe] assms(2) by simp
    obtain pr s5 where ps: "probeSource env params (ReceiptIn res') f' s4 = (pr, s5)"
      by (cases "probeSource env params (ReceiptIn res') f' s4")
    show ?thesis
    proof (cases pr)
      case (Some err)
      with ps fe Inr fr assms(3,4) show ?thesis
        by (auto simp: prepareOpened_def dest: forceExternal_Errorf probeSource_Errorf)
    next
      case None
      with ps probeSource_ignoring [OF assms(1) i4] obtain probed where
        "InstallerInfoOf (istate s5) = Some (rewriteIgnored probed)" by blast
      then have "map_option InfoType (InstallerInfoOf (istate s5)) \<noteq> Some InstallerTypeUnsupported"
        using rewriteIgnored_type [of probed] by auto
      with None ps fe Inr fr have "prepareOpened env params a res f s = (RunTask res', s5)"
        by (simp add: prepareOpened_def)
      with assms(3,4) have "EvErrorf unsupportedMsg \<in> set (trace s5)" by simp
      with ps have "EvErrorf unsupportedMsg \<in> set (trace s4)" by (rule probeSource_Errorf)
      with fe show ?thesis by (rule forceExternal_Errorf)
    qed
  qed
qed

lemma readReceiptIn_Errorf:
  "readReceiptIn env params s = (r, s') \<Longrightarrow>
   EvErrorf unsupportedMsg \<in> set (trace s') \<Longrightarrow> EvErrorf unsupportedMsg \<in> set (trace s)"
  by (auto simp: readReceiptIn_def Let_def unsupportedMsg_def split: sum.splits)

lemma readReceiptIn_istate: "readReceiptIn env params s = (r, s') \<Longrightarrow> istate s' = istate s"
  by (auto simp: readReceiptIn_def Let_def split: sum.splits)

lemma ensureDownloadSession_Errorf:
  "ensureDownloadSession env params client s = (r, s') \<Longrightarrow>
   EvErrorf m \<in> set (trace s') \<Longrightarrow> EvErrorf m \<in> set (trace s)"
  by (auto simp: ensureDownloadSession_def Let_def split: sum.splits if_splits)

lemma ensureDownloadSession_InstallerInfoOf:
  "ensureDownloadSession env params client s = (r, s') \<Longrightarrow>
   InstallerInfoOf (istate s') = InstallerInfoOf (istate s)"
  by (auto simp: ensureDownloadSession_def Let_def split: sum.splits if_splits)

lemma sameUploadBuilds_Errorf:
  "sameUploadBuilds env params client res upload oldID newID s = (r, s') \<Longrightarrow>
   EvErrorf m \<in> set (trace s') \<Longrightarrow> EvErrorf m \<in> set (trace s)"
  by (auto simp: sameUploadBuilds_def Let_def split: sum.splits if_splits)

lemma installFromSource_ignoring:
  assumes "IgnoreInstallers params"
    and "InstallerInfoOf (istate s) = None \<or> map_option InfoType (InstallerInfoOf (istate s)) = Some InstallerTypeUnknown"
    and "installFromSource env params a res s = (out, s')"
    and "EvErrorf unsupportedMsg \<in> set (trace s')"
  shows "EvErrorf unsupportedMsg \<in> set (trace s)"
proof (cases "eos_Open env OpenSource (sourceURL env (istate s) params)")
  case (Inl err)
  with assms(3,4) show ?thesis by (auto simp: installFromSource_def Let_def)
next
  case (Inr file0)
  let ?s1 = "emit (EvOpen OpenSource (sourceURL env (istate s) params)) s"
  obtain o2 s2 where po: "prepareOpened env params a (res\<lparr>File := Some file0\<rparr>) file0 ?s1 = (o2, s2)"
    by (cases "prepareOpened env params a (res\<lparr>File := Some file0\<rparr>) file0 ?s1")
  with Inr assms(3) have "s' = s2" by (auto simp: installFromSource_def Let_def)
  with assms(4) have "EvErrorf unsupportedMsg \<in> set (trace s2)" by simp
  with prepareOpened_ignoring [OF assms(1) _ po] assms(2)
  have "EvErrorf unsupportedMsg \<in> set (trace ?s1)" by simp
  then show ?thesis by simp
qed

lemma selectStrategy_ignoring:
  assumes "IgnoreInstallers params"
    and "InstallerInfoOf (istate s) = None \<or> map_option InfoType (InstallerInfoOf (istate s)) = Some InstallerTypeUnknown"
    and "selectStrategy env params a client res s = (out, s')"
    and "EvErrorf unsupportedMsg \<in> set (trace s')"
  shows "EvErrorf unsupportedMsg \<in> set (trace s)"
  using assms(3,4) installFromSource_ignoring [OF assms(1,2)]
  by (auto simp: selectStrategy_def split: option.splits if_splits prod.splits
      dest: sameUploadBuilds_Errorf)

lemma prepareBody_ignoring:
  assumes "IgnoreInstallers params"
    and "InstallerInfoOf (istate s) = None \<or> map_option InfoType (InstallerInfoOf (istate s)) = Some InstallerTypeUnknown"
    and "prepareBody env params a s = (out, s')"
    and "EvErrorf unsupportedMsg \<in> set (trace s')"
  shows "EvErrorf unsupportedMsg \<in> set (trace s)"
proof (cases "ClientFromCredentials env (MCredentials params)")
  case (Inl err)
  with assms(3,4) show ?thesis by (auto simp: prepareBody_def)
next
  case (Inr client)
  obtain receiptIn s2 where r: "readReceiptIn env params s = (receiptIn, s2)"
    by (cases "readReceiptIn env params s")
  obtain e s3 where e: "ensureDownloadSession env params client s2 = (e, s3)"
    by (cases "ensureDownloadSession env params client s2")
  have i3: "InstallerInfoOf (istate s3) = None \<or> map_option InfoType (InstallerInfoOf (istate s3)) = Some InstallerTypeUnknown"
    using assms(2) readReceiptIn_istate [OF r] ensureDownloadSession_InstallerInfoOf [OF e] by simp
  have "EvErrorf unsupportedMsg \<in> set (trace s3)"
  proof (cases e)
    case (Some err)
    with Inr r e assms(3,4) show ?thesis by (auto simp: prepareBody_def)
  next
    case None
    with Inr r e assms(3) have "selectStrategy env params a client
        (emptyInstallPrepareResult\<lparr>ReceiptIn := receiptIn\<rparr>) s3 = (out, s')"
      by (simp add: prepareBody_def)
    from selectStrategy_ignoring [OF assms(1) i3 this assms(4)] show ?thesis .
  qed
  with e have "EvErrorf unsupportedMsg \<in> set (trace s2)" by (rule ensureDownloadSession_Errorf)
  with r show ?thesis by (rule readReceiptIn_Errorf)
qed

lemma probeSource_ignoring_ok:
  assumes "IgnoreInstallers params"
    and "InstallerInfoOf (istate s) = None \<or> map_option InfoType (InstallerInfoOf (istate s)) = Some InstallerTypeUnknown"
    and "GetInstallerInfo env ProbeSource f = Inr probed"
    and "file_Seek env f = None"
    and "\<forall>i. AssessDiskUsage env f receiptIn (InstallFolder params) i = None"
  shows "\<exists>s'. probeSource env params receiptIn f s = (None, s')
     \<and> InstallerInfoOf (istate s') = Some (rewriteIgnored probed)"
  using assms
  by (auto simp: probeSource_def Let_def rewriteIgnored_def split: InstallerType.splits)

text \<open>
C10. \<open>IgnoreInstallers\<close> is set and the classification is probed in this run (none is
  cached, or the cached one is \<open>unknown\<close>). Then no run takes the unsupported-packaging
  branch: its \<open>Errorf\<close> is never added to the trace. And when the run reaches the probe
  and the probe, the seek and the disk-usage assessment succeed, the recorded type is
  \<open>archive\<close> if the probe said so and \<open>naked\<close> for every other probed type
  (\<open>unsupported\<close> and \<open>unknown\<close> included), and the task is run on the install path.
\<close>

theorem ignoring_installers_never_unsupported:
  assumes "IgnoreInstallers params"
    and "InstallerInfoOf (istate s) = None
         \<or> map_option InfoType (InstallerInfoOf (istate s)) = Some InstallerTypeUnknown"
  shows "(\<forall>out s'. prepareBody env params a s = (out, s') \<longrightarrow>
             EvErrorf unsupportedMsg \<in> set (trace s') \<longrightarrow> EvErrorf unsupportedMsg \<in> set (trace s))
    \<and> (ClientFromCredentials env (MCredentials params) = Inr client
        \<and> (DownloadSessionId (istate s) \<noteq> [] \<or>
             NewDownloadSession env client (GameID (MGame params)) (DownloadKey (MCredentials params)) = Inr uuid)
        \<and> takesInstallPath (receiptRead env params) params
        \<and> (\<forall>i. eos_Open env OpenSource (sourceURL env i params) = Inr file0)
        \<and> ((\<not> isExternal env params \<and> f = file0)
             \<or> (isExternal env params \<and> a \<and> fst (doForceLocal env FromPrepare file0 s) = Inr f))
        \<and> GetInstallerInfo env ProbeSource f = Inr probed
        \<and> file_Seek env f = None
        \<and> (\<forall>i. AssessDiskUsage env f (receiptRead env params) (InstallFolder params) i = None)
       \<longrightarrow> (\<exists>res s' info. prepareBody env params a s = ((RunTask res, Some file0), s')
              \<and> Strategy res \<noteq> InstallPerformStrategyHeal
              \<and> File res = Some f
              \<and> InstallerInfoOf (istate s') = Some info
              \<and> InfoType info = (if InfoType probed = InstallerTypeArchive then InstallerTypeArchive
                                  else InstallerTypeNaked)
              \<and> InstallPrepare env params a task s =
                  (case task res s' of (r, s'') \<Rightarrow> (r, emit (EvClose file0) s''))))"
proof (intro conjI allI impI)
  fix out s'
  assume "prepareBody env params a s = (out, s')" "EvErrorf unsupportedMsg \<in> set (trace s')"
  with prepareBody_ignoring [OF assms] show "EvErrorf unsupportedMsg \<in> set (trace s)" by blast
next
  assume h: "ClientFromCredentials env (MCredentials params) = Inr client
        \<and> (DownloadSessionId (istate s) \<noteq> [] \<or>
             NewDownloadSession env client (GameID (MGame params)) (DownloadKey (MCredentials params)) = Inr uuid)
        \<and> takesInstallPath (receiptRead env params) params
        \<and> (\<forall>i. eos_Open env OpenSource (sourceURL env i params) = Inr file0)
        \<and> ((\<not> isExternal env params \<and> f = file0)
             \<or> (isExternal env params \<and> a \<and> fst (doForceLocal env FromPrepare file0 s) = Inr f))
        \<and> GetInstallerInfo env ProbeSource f = Inr probed
        \<and> file_Seek env f = None
        \<and> (\<forall>i. AssessDiskUsage env f (receiptRead env params) (InstallFolder params) i = None)"
  let ?res0 = "\<lparr>File = Some file0, ReceiptIn = receiptRead env params, Strategy = 0\<rparr>"
  obtain s1 where s1: "InstallerInfoOf (istate s1) = InstallerInfoOf (istate s)"
      "IsAvailableLocally (istate s1) = IsAvailableLocally (istate s)"
      "prepareBody env params a s =
          (case prepareOpened env params a ?res0 file0 s1 of
             (out, s2) \<Rightarrow> ((out, Some file0), s2))"
    using prepareBody_install_path [of env params client s uuid file0 a] h by blast
  obtain res s4 where s4: "forceExternal env params a ?res0 file0 s1 = (Inr (f, res), s4)"
      "InstallerInfoOf (istate s4) = InstallerInfoOf (istate s)"
      "ReceiptIn res = receiptRead env params" "Strategy res = 0" "File res = Some f"
  proof (cases "isExternal env params")
    case False
    with h have "f = file0" by auto
    with False s1(1) show ?thesis
      using forceExternal_plain [of env params a ?res0 file0 s1]
      by (intro that [of ?res0 s1]) simp_all
  next
    case True
    with h have "a" "fst (doForceLocal env FromPrepare file0 s) = Inr f" by auto
    from forceExternal_forced [OF True this s1(2), of ?res0] obtain s4 where
      "forceExternal env params a ?res0 file0 s1 = (Inr (f, ?res0\<lparr>File := Some f\<rparr>), s4)"
      "InstallerInfoOf (istate s4) = InstallerInfoOf (istate s1)" by blast
    with s1(1) show ?thesis
      by (intro that [of "?res0\<lparr>File := Some f\<rparr>" s4]) simp_all
  qed
  obtain s5 where s5: "probeSource env params (receiptRead env params) f s4 = (None, s5)"
      "InstallerInfoOf (istate s5) = Some (rewriteIgnored probed)"
    using probeSource_ignoring_ok [of params s4 env f probed "receiptRead env params"] assms h s4(2)
    by auto
  have t: "InfoType (rewriteIgnored probed) =
      (if InfoType probed = InstallerTypeArchive then InstallerTypeArchive else InstallerTypeNaked)"
    by (simp add: rewriteIgnored_def)
  have body: "prepareBody env params a s = ((RunTask res, Some file0), s5)"
    using s1(3) s4(1,3) s5 t by (simp add: prepareOpened_def)
  then have "InstallPrepare env params a task s =
      (case task res s5 of (r, s'') \<Rightarrow> (r, emit (EvClose file0) s''))"
    by (simp add: InstallPrepare_def runDeferred_def)
  with body s4(4,5) s5(2) t
  show "\<exists>res s' info. prepareBody env params a s = ((RunTask res, Some file0), s')
              \<and> Strategy res \<noteq> InstallPerformStrategyHeal
              \<and> File res = Some f
              \<and> InstallerInfoOf (istate s') = Some info
              \<and> InfoType info = (if InfoType probed = InstallerTypeArchive then InstallerTypeArchive
                                  else InstallerTypeNaked)
              \<and> InstallPrepare env params a task s =
                  (case task res s' of (r, s'') \<Rightarrow> (r, emit (EvClose file0) s''))"
    by (auto simp: InstallPerformStrategyHeal_def)
qed

theorem ignoring_installers_never_unsupported_witness:
  "EvErrorf unsupportedMsg \<notin> set (trace (snd (prepareBody unsupportedEnv ignoringParams True freshState)))
   \<and> (\<exists>res s' info. prepareBody unsupportedEnv ignoringParams True freshState = ((RunTask res, Some 1), s')
              \<and> Strategy res \<noteq> InstallPerformStrategyHeal
              \<and> File res = Some 1
              \<and> InstallerInfoOf (istate s') = Some info
              \<and> InfoType info = InstallerTypeNaked
              \<and> InstallPrepare unsupportedEnv ignoringParams True (\<lambda>res st. (Nil, st)) freshState =
                  (case (\<lambda>res st. (Nil, st)) res s' of (r, s'') \<Rightarrow> (r, emit (EvClose 1) s'')))"
proof -
  have ign: "IgnoreInstallers ignoringParams"
    by (simp add: ignoringParams_def)
  have fresh: "InstallerInfoOf (istate freshState) = None
         \<or> map_option InfoType (InstallerInfoOf (istate freshState)) = Some InstallerTypeUnknown"
    by (simp add: freshState_def emptySubstate_def)
  note t = ignoring_installers_never_unsupported [OF ign fresh, where env = unsupportedEnv
      and client = 0 and uuid = "''session''" and ?file0.0 = 1 and f = 1
      and a = True and probed = "\<lparr>InfoType = InstallerTypeUnsupported\<rparr>"
      and task = "\<lambda>res st. (Nil, st)"]
  from t have "EvErrorf unsupportedMsg \<in> set (trace (snd (prepareBody unsupportedEnv ignoringParams True freshState)))
      \<longrightarrow> EvErrorf unsupportedMsg \<in> set (trace freshState)"
    by (metis prod.collapse)
  then have g: "EvErrorf unsupportedMsg \<notin> set (trace (snd (prepareBody unsupportedEnv ignoringParams True freshState)))"
    by (simp add: freshState_def)
  from t have "\<exists>res s' info. prepareBody unsupportedEnv ignoringParams True freshState = ((RunTask res, Some 1), s')
              \<and> Strategy res \<noteq> InstallPerformStrategyHeal
              \<and> File res = Some 1
              \<and> InstallerInfoOf (istate s') = Some info
              \<and> InfoType info = InstallerTypeNaked
              \<and> InstallPrepare unsupportedEnv ignoringParams True (\<lambda>res st. (Nil, st)) freshState =
                  (case (\<lambda>res st. (Nil, st)) res s' of (r, s'') \<Rightarrow> (r, emit (EvClose 1) s''))"
    by (simp add: unsupportedEnv_def okEnv_def okParams_def ignoringParams_def freshState_def
      emptySubstate_def takesInstallPath_def receiptRead_def isExternal_def)
  with g show ?thesis by blast
qed

section \<open>Checkpointed fields and retirement\<close>

lemma keepsSetFields_refl [simp]: "keepsSetFields i i"
  by (simp add: keepsSetFields_def split: option.splits)

lemma keepsSetFields_set:
  "DownloadSessionId i = [] \<Longrightarrow> keepsSetFields i (i\<lparr>DownloadSessionId := uuid\<rparr>)"
  "keepsSetFields i (i\<lparr>IsAvailableLocally := True\<rparr>)"
  "InstallerInfoOf i = None \<or> map_option InfoType (InstallerInfoOf i) = Some InstallerTypeUnknown
   \<Longrightarrow> keepsSetFields i (i\<lparr>InstallerInfoOf := Some info\<rparr>)"
  "SecondInstallerInfo i = None \<Longrightarrow> keepsSetFields i (i\<lparr>SecondInstallerInfo := Some info\<rparr>)"
  "FirstInstallResult i = None \<Longrightarrow> keepsSetFields i (i\<lparr>FirstInstallResult := Some res\<rparr>)"
  by (auto simp: keepsSetFields_def split: option.splits)

lemma keepsSetFields_trans:
  "keepsSetFields i i' \<Longrightarrow> keepsSetFields i' i'' \<Longrightarrow> keepsSetFields i i''"
  by (auto simp: keepsSetFields_def split: option.splits)

lemma recomputes_mono: "keepsSetFields i i' \<Longrightarrow> recomputes i e \<Longrightarrow> recomputes i' e"
  by (induction i e rule: recomputes.induct) (auto simp: keepsSetFields_def split: option.splits)

lemma checkpointKeeps_mono:
  "keepsSetFields i i' \<Longrightarrow> checkpointKeeps i' e \<Longrightarrow> checkpointKeeps i e"
  by (cases e) (auto intro: keepsSetFields_trans)

lemma okEvent_mono: "keepsSetFields i i' \<Longrightarrow> okEvent i' e \<Longrightarrow> okEvent i e"
  unfolding okEvent_def using recomputes_mono checkpointKeeps_mono by blast

lemma step_refl [simp]: "step s s"
  by (simp add: step_def)

lemma step_iff:
  "step s s' \<longleftrightarrow> keepsSetFields (istate s) (istate s')
     \<and> (\<exists>evs. trace s' = trace s @ evs \<and> (\<forall>e\<in>set evs. okEvent (istate s) e))"
  by (auto simp: step_def list_all_iff) (metis append_take_drop_id)

lemma step_trans:
  assumes "step s s1" and "step s1 s2"
  shows "step s s2"
proof -
  from assms(1) obtain evs where a: "keepsSetFields (istate s) (istate s1)"
      "trace s1 = trace s @ evs" "\<forall>e\<in>set evs. okEvent (istate s) e"
    unfolding step_iff by blast
  from assms(2) obtain evs' where b: "keepsSetFields (istate s1) (istate s2)"
      "trace s2 = trace s1 @ evs'" "\<forall>e\<in>set evs'. okEvent (istate s1) e"
    unfolding step_iff by blast
  have "\<forall>e\<in>set evs'. okEvent (istate s) e"
    using a(1) b(3) okEvent_mono by blast
  with a b have "trace s2 = trace s @ (evs @ evs')" "\<forall>e\<in>set (evs @ evs'). okEvent (istate s) e"
    by auto
  moreover have "keepsSetFields (istate s) (istate s2)"
    using a(1) b(1) by (rule keepsSetFields_trans)
  ultimately show ?thesis unfolding step_iff by blast
qed

lemma step_emit:
  "step s0 s \<Longrightarrow> okEvent (istate s) e \<Longrightarrow> step s0 (emit e s)"
  by (rule step_trans, assumption) (simp add: step_iff)

lemma step_istate:
  "step s0 s \<Longrightarrow> keepsSetFields (istate s) i' \<Longrightarrow> step s0 (s\<lparr>istate := i'\<rparr>)"
  by (rule step_trans, assumption) (simp add: step_iff)

lemma step_oc_Save: "step s0 s \<Longrightarrow> step s0 (oc_Save s)"
  unfolding oc_Save_def by (rule step_emit) (simp_all add: okEvent_def)

lemma dlErr_step:
  "\<not> IsAvailableLocally (istate s) \<Longrightarrow> step s0 s \<Longrightarrow> step s0 (snd (dlErr env who f p s))"
  by (auto simp: dlErr_def Let_def okEvent_def split: option.splits intro!: step_emit)

lemma dlErr_snd_istate: "istate (snd (dlErr env who f p s)) = istate s"
  by (auto simp: dlErr_def Let_def split: option.splits)

lemma doForceLocal_step:
  "step s0 s \<Longrightarrow> step s0 (snd (doForceLocal env who f s))"
  by (auto simp: doForceLocal_def Let_def okEvent_def keepsSetFields_def case_prod_unfold dlErr_snd_istate
      split: sum.splits option.splits
      intro!: step_emit step_oc_Save step_istate dlErr_step)

lemma doForceLocal_frame:
  "DownloadSessionId (istate (snd (doForceLocal env who f s))) = DownloadSessionId (istate s)"
  "InstallerInfoOf (istate (snd (doForceLocal env who f s))) = InstallerInfoOf (istate s)"
  "SecondInstallerInfo (istate (snd (doForceLocal env who f s))) = SecondInstallerInfo (istate s)"
  "FirstInstallResult (istate (snd (doForceLocal env who f s))) = FirstInstallResult (istate s)"
  by (auto simp: doForceLocal_def Let_def case_prod_unfold dlErr_snd_istate split: sum.splits option.splits)

lemma readReceiptIn_step: "step s0 s \<Longrightarrow> step s0 (snd (readReceiptIn env params s))"
  by (auto simp: readReceiptIn_def Let_def okEvent_def split: sum.splits intro!: step_emit)

lemma ensureDownloadSession_step:
  "step s0 s \<Longrightarrow> step s0 (snd (ensureDownloadSession env params client s))"
  by (auto simp: ensureDownloadSession_def Let_def okEvent_def keepsSetFields_def
      split: sum.splits option.splits intro!: step_emit step_oc_Save step_istate)

lemma probeSource_step:
  "step s0 s \<Longrightarrow> step s0 (snd (probeSource env params receiptIn f s))"
  by (auto simp: probeSource_def Let_def okEvent_def keepsSetFields_def
      split: sum.splits option.splits intro!: step_emit step_oc_Save step_istate)

lemma forceExternal_step:
  "step s0 s \<Longrightarrow> step s0 (snd (forceExternal env params a res f s))"
  by (auto simp: forceExternal_def Let_def okEvent_def case_prod_unfold
      split: sum.splits intro!: step_emit doForceLocal_step)

lemma prepareOpened_step:
  "step s0 s \<Longrightarrow> step s0 (snd (prepareOpened env params a res f s))"
  by (auto simp: prepareOpened_def Let_def okEvent_def case_prod_unfold
      split: sum.splits option.splits intro!: step_emit forceExternal_step probeSource_step)

lemma installFromSource_step:
  "step s0 s \<Longrightarrow> step s0 (snd (installFromSource env params a res s))"
  by (auto simp: installFromSource_def Let_def okEvent_def case_prod_unfold
      split: sum.splits intro!: step_emit prepareOpened_step)

lemma sameUploadBuilds_step:
  "step s0 s \<Longrightarrow> step s0 (snd (sameUploadBuilds env params client res upload oldID newID s))"
  by (auto simp: sameUploadBuilds_def Let_def okEvent_def split: sum.splits intro!: step_emit)

lemma selectStrategy_step:
  "step s0 s \<Longrightarrow> step s0 (snd (selectStrategy env params a client res s))"
  by (auto simp: selectStrategy_def case_prod_unfold split: option.splits
      intro!: installFromSource_step sameUploadBuilds_step)

lemma prepareBody_step:
  "step s0 s \<Longrightarrow> step s0 (snd (prepareBody env params a s))"
  by (auto simp: prepareBody_def case_prod_unfold split: sum.splits option.splits
      intro!: selectStrategy_step ensureDownloadSession_step readReceiptIn_step)

lemma tryInstall_istate: "istate (snd (tryInstall env att mgr f s)) = istate s"
  by (auto simp: tryInstall_def Let_def split: sum.splits option.splits)

lemma tryInstall_step:
  "att = NestedTry \<or> FirstInstallResult (istate s) = None \<Longrightarrow> step s0 s \<Longrightarrow>
   step s0 (snd (tryInstall env att mgr f s))"
  by (cases att) (auto simp: tryInstall_def Let_def okEvent_def split: sum.splits option.splits
      intro!: step_emit)

lemma firstInstall_step:
  assumes "step s0 s"
  shows "step s0 (snd (firstInstall env mgr f s))"
proof (cases "FirstInstallResult (istate s)")
  case (Some firstInstallResult)
  with assms show ?thesis by (simp add: firstInstall_def)
next
  case None
  obtain r1 s1 where t1: "tryInstall env FirstTry mgr f s = (r1, s1)"
    by (cases "tryInstall env FirstTry mgr f s")
  have s1: "step s0 s1" "istate s1 = istate s"
    using tryInstall_step [of FirstTry s s0 env mgr f] tryInstall_istate [of env FirstTry mgr f s]
      None assms t1 by simp_all
  obtain r2 s2 where d: "doForceLocal env FromRetry f s1 = (r2, s2)"
    by (cases "doForceLocal env FromRetry f s1")
  have s2: "step s0 s2" "FirstInstallResult (istate s2) = None"
    using doForceLocal_step [OF s1(1), of env FromRetry f] doForceLocal_frame(4) [of env FromRetry f s1]
      d s1(2) None by simp_all
  have t2: "step s0 (snd (tryInstall env LocalRetry mgr lf s2))"
    "FirstInstallResult (istate (snd (tryInstall env LocalRetry mgr lf s2))) = None" for lf
    using tryInstall_step [of LocalRetry s2 s0 env mgr lf] s2 by (simp_all add: tryInstall_istate)
  show ?thesis
    using None t1 d s1 s2 t2
    by (auto simp: firstInstall_def Let_def case_prod_unfold keepsSetFields_set tryInstall_istate
        split: sum.splits intro!: step_oc_Save step_istate)
qed

lemma relocateSingle_step: "step s0 s \<Longrightarrow> step s0 (snd (relocateSingle env a b s))"
  by (auto simp: relocateSingle_def Let_def okEvent_def split: option.splits intro!: step_emit)


lemma nestedAfterProbe_step:
  assumes "step s0 s"
  shows "step s0 (snd (nestedAfterProbe env params info first single sii s))"
proof -
  have "step s0 (snd (tryInstall env NestedTry mgr lf (snd (relocateSingle env a b s))))" for mgr lf a b
    by (intro tryInstall_step relocateSingle_step assms) simp
  with assms relocateSingle_step [OF assms] show ?thesis
    by (auto simp: nestedAfterProbe_def Let_def case_prod_unfold split: sum.splits option.splits)
qed

lemma nestedInstall_step:
  assumes "step s0 s"
  shows "step s0 (snd (nestedInstall env params info first single s))"
proof (cases "SecondInstallerInfo (istate s)")
  case (Some sii)
  with assms show ?thesis by (simp add: nestedInstall_def nestedAfterProbe_step)
next
  case None
  have "step s0 (emit (EvClose sf) (emit (EvGetInstallerInfo ProbeSingle sf) s))" for sf
    using assms None by (intro step_emit) (simp_all add: okEvent_def)
  moreover have "step s0 (emit (EvClose sf) (snd (nestedAfterProbe env params info first single sii
      (oc_Save (emit (EvClose sf) (emit (EvGetInstallerInfo ProbeSingle sf) s)
          \<lparr>istate := (istate (emit (EvGetInstallerInfo ProbeSingle sf) s))\<lparr>SecondInstallerInfo := Some sii\<rparr>\<rparr>)))))" for sf sii
    using assms None
    by (intro step_emit nestedAfterProbe_step step_oc_Save step_istate)
       (simp_all add: okEvent_def keepsSetFields_set)
  ultimately show ?thesis
    using None assms
    by (auto simp: nestedInstall_def Let_def okEvent_def case_prod_unfold split: sum.splits)
qed

lemma performTask_step:
  assumes "step s0 s"
  shows "step s0 (snd (performTask env params res s))"
proof -
  let ?s1 = "if \<not> NoCave params then emit EvSetCave s else s"
  have s1: "step s0 ?s1" using assms by (auto intro!: step_emit simp: okEvent_def)
  have c: "step s0 (emit (EvCommit cp) s')" if "step s0 s'" for cp s'
    using that by (intro step_emit) (simp_all add: okEvent_def)
  have n: "step s0 (emit (EvCommit cp) (snd (nestedInstall env params info first single
      (snd (firstInstall env mgr f ?s1)))))" for cp info first single mgr f
    by (intro c nestedInstall_step firstInstall_step s1)
  have n': "step s0 (snd (nestedInstall env params info first single
      (snd (firstInstall env mgr f ?s1))))" for info first single mgr f
    by (intro nestedInstall_step firstInstall_step s1)
  have f': "step s0 (snd (firstInstall env mgr f ?s1))" for mgr f
    by (intro firstInstall_step s1)
  have h: "step s0 (emit EvHeal s)" using assms by (intro step_emit) (simp_all add: okEvent_def)
  show ?thesis
  proof (cases "Strategy res = InstallPerformStrategyHeal")
    case True
    with h show ?thesis by (simp add: performTask_def Let_def split: option.splits)
  next
    case False
    show ?thesis
    proof (cases "File res")
      case None
      with False assms show ?thesis by (simp add: performTask_def)
    next
      case (Some f)
      show ?thesis
      proof (cases "file_Stat env StatTask f")
        case (Inl err)
        with False Some assms show ?thesis by (simp add: performTask_def)
      next
        case (Inr stats)
        show ?thesis
        proof (cases "InstallerInfoOf (istate s)")
          case None
          with False Some Inr s1 show ?thesis by (simp add: performTask_def Let_def)
        next
          case (Some info)
          note info = this
          show ?thesis
          proof (cases "GetManager env (InfoType info)")
            case None
            with False \<open>File res = Some f\<close> Inr info s1 show ?thesis
              by (simp add: performTask_def Let_def)
          next
            case (Some mgr)
            obtain r2 s2 where fi: "firstInstall env mgr f ?s1 = (r2, s2)"
              by (cases "firstInstall env mgr f ?s1")
            have s2: "step s0 s2" using f' [of mgr f] fi by simp
            have n2: "step s0 (snd (nestedInstall env params info first single s2))" for first single
              using n' [of info first single mgr f] fi by simp
            show ?thesis
            proof (cases r2)
              case (Inl err)
              with False \<open>File res = Some f\<close> Inr info Some fi s2 show ?thesis
                by (simp add: performTask_def Let_def)
            next
              case (Inr first)
              with False \<open>File res = Some f\<close> \<open>file_Stat env StatTask f = Inr stats\<close> info Some fi s2 n2 c
              show ?thesis
                by (auto simp: performTask_def Let_def case_prod_unfold
                    split: list.splits sum.splits option.splits)
            qed
          qed
        qed
      qed
    qed
  qed
qed

lemma InstallPrepare_step:
  assumes "\<And>res s1. step s0 s1 \<Longrightarrow> step s0 (snd (task res s1))"
    and "step s0 s"
  shows "step s0 (snd (InstallPrepare env params a task s))"
  using assms prepareBody_step [OF assms(2), of env params a]
  by (auto simp: InstallPrepare_def runDeferred_def okEvent_def case_prod_unfold
      split: prod.splits outcome.splits option.splits intro!: step_emit)

text \<open>
Every run of \<open>doInstallPerform\<close> is such a step from the loaded substate.
\<close>

lemma doInstallPerform_step:
  "step \<lparr>istate = oc_Load env, trace = []\<rparr> (snd (doInstallPerform env params \<lparr>istate = i, trace = []\<rparr>))"
  unfolding doInstallPerform_def
  by (rule InstallPrepare_step) (simp_all add: performTask_step)

lemma doInstallPerform_no_Retire:
  "EvRetire \<notin> set (trace (snd (doInstallPerform env params \<lparr>istate = i, trace = []\<rparr>)))"
  using doInstallPerform_step [of env params i]
  by (auto simp: step_iff okEvent_def)

text \<open>
C9. In a run of \<open>InstallPerform\<close> the context is retired exactly when the staging
  folder is given, the context loads and \<open>doInstallPerform\<close> returns \<open>nil\<close>. Whenever
  \<open>doInstallPerform\<close> returns an error (a cancellation among them), \<open>Retire\<close> is not called
  and \<open>InstallPerform\<close> does not return \<open>nil\<close>.
\<close>

theorem retire_only_after_success:
  "(EvRetire \<in> set (trace (snd (InstallPerform env StagingFolder \<lparr>istate = i, trace = []\<rparr>)))
      \<longleftrightarrow> StagingFolder \<noteq> [] \<and> LoadContext env StagingFolder = None
          \<and> fst (doInstallPerform env (oc_LoadMeta env) \<lparr>istate = i, trace = []\<rparr>) = Nil)
   \<and> (\<forall>err. fst (doInstallPerform env (oc_LoadMeta env) \<lparr>istate = i, trace = []\<rparr>) = Err err
         \<longrightarrow> EvRetire \<notin> set (trace (snd (InstallPerform env StagingFolder \<lparr>istate = i, trace = []\<rparr>)))
            \<and> fst (InstallPerform env StagingFolder \<lparr>istate = i, trace = []\<rparr>) \<noteq> Nil)"
  using doInstallPerform_no_Retire [of env "oc_LoadMeta env" i]
  by (auto simp: InstallPerform_def Let_def split: option.splits prod.splits ret.splits)

theorem retire_only_after_success_witness:
  "fst (doInstallPerform cancelledEnv okParams \<lparr>istate = emptySubstate, trace = []\<rparr>)
     = Err (WithStack (WithStack CodeOperationCancelled))
   \<and> EvRetire \<notin> set (trace (snd (InstallPerform cancelledEnv ''stage'' \<lparr>istate = emptySubstate, trace = []\<rparr>)))
   \<and> fst (InstallPerform cancelledEnv ''stage'' \<lparr>istate = emptySubstate, trace = []\<rparr>) \<noteq> Nil
   \<and> EvRetire \<in> set (trace (snd (InstallPerform okEnv ''stage'' \<lparr>istate = emptySubstate, trace = []\<rparr>)))"
proof -
  have d: "fst (doInstallPerform cancelledEnv okParams \<lparr>istate = emptySubstate, trace = []\<rparr>)
     = Err (WithStack (WithStack CodeOperationCancelled))"
    by (simp add: doInstallPerform_def InstallPrepare_def runDeferred_def prepareBody_def
        readReceiptIn_def ensureDownloadSession_def selectStrategy_def installFromSource_def
        prepareOpened_def forceExternal_def probeSource_def emptyInstallPrepareResult_def Let_def
        performTask_def firstInstall_def tryInstall_def
        cancelledEnv_def okEnv_def okParams_def emptySubstate_def
        InstallPerformStrategyHeal_def)
  have m: "oc_LoadMeta cancelledEnv = okParams"
    by (simp add: cancelledEnv_def okEnv_def)
  have ok: "fst (doInstallPerform okEnv okParams \<lparr>istate = emptySubstate, trace = []\<rparr>) = Nil"
    by (simp add: doInstallPerform_def InstallPrepare_def runDeferred_def prepareBody_def
        readReceiptIn_def ensureDownloadSession_def selectStrategy_def installFromSource_def
        prepareOpened_def forceExternal_def probeSource_def emptyInstallPrepareResult_def Let_def
        performTask_def firstInstall_def tryInstall_def
        okEnv_def okParams_def emptySubstate_def
        InstallPerformStrategyHeal_def)
  have m': "oc_LoadMeta okEnv = okParams" "LoadContext okEnv ''stage'' = None"
    by (simp_all add: okEnv_def)
  from retire_only_after_success [of cancelledEnv "''stage''" emptySubstate] d m
  have "EvRetire \<notin> set (trace (snd (InstallPerform cancelledEnv ''stage'' \<lparr>istate = emptySubstate, trace = []\<rparr>)))
   \<and> fst (InstallPerform cancelledEnv ''stage'' \<lparr>istate = emptySubstate, trace = []\<rparr>) \<noteq> Nil"
    by simp
  moreover from retire_only_after_success [of okEnv "''stage''" emptySubstate] ok m'
  have "EvRetire \<in> set (trace (snd (InstallPerform okEnv ''stage'' \<lparr>istate = emptySubstate, trace = []\<rparr>)))"
    by simp
  ultimately show ?thesis using d by blast
qed

lemmas run_defs = doInstallPerform_def InstallPrepare_def runDeferred_def prepareBody_def
        readReceiptIn_def ensureDownloadSession_def selectStrategy_def installFromSource_def
        prepareOpened_def forceExternal_def probeSource_def emptyInstallPrepareResult_def Let_def
        performTask_def firstInstall_def tryInstall_def nestedInstall_def nestedAfterProbe_def
        relocateSingle_def doForceLocal_def dlErr_def sameUploadBuilds_def
        okEnv_def okParams_def emptySubstate_def InstallPerformStrategyHeal_def




section \<open>The needs-local retry\<close>

lemma tryInstall_trace:
  "trace (snd (tryInstall env att mgr f s)) =
     trace s @ [EvTryInstall att] @ backendCalls env att mgr f @ [EvClose f]"
  by (auto simp: tryInstall_def backendCalls_def Let_def split: option.splits sum.splits)

lemma tryInstall_fst:
  "fst (tryInstall env att mgr f s) = fst (tryInstall env att mgr f s')"
  by (auto simp: tryInstall_def Let_def split: option.splits sum.splits)

lemma dlErr_filter:
  assumes "\<And>w p. \<not> P (EvDownloadInstallSource w p)"
  shows "filter P (trace (snd (dlErr env who f p s))) = filter P (trace s)"
  using assms by (auto simp: dlErr_def Let_def split: option.splits)

lemma doForceLocal_filter:
  assumes "\<And>w p. \<not> P (EvDownloadInstallSource w p)" and "\<And>i. \<not> P (EvSave i)"
    and "\<And>site p. \<not> P (EvOpen site p)"
  shows "filter P (trace (snd (doForceLocal env who f s))) = filter P (trace s)"
  using assms dlErr_filter [of P env who f _ s, OF assms(1)]
  by (auto simp: doForceLocal_def Let_def case_prod_unfold dlErr_snd_istate split: sum.splits option.splits)

text \<open>
C6, amended. The first install step (lines 415 to 442), no first result recorded, the
  first \<open>tryInstall\<close> failing with \<open>err\<close>.
  If the cause of \<open>err\<close> is \<open>ErrNeedLocal\<close> and the forced-local copy gives a file, the
  closure runs exactly once more, on the same manager with the local file, and the step
  returns the retry's result, its error wrapped. If the copy fails there is no retry and
  the step fails. If the cause is anything else there is no retry and \<open>err\<close> is returned
  wrapped. In each case no other backend invocation is made.
\<close>

theorem needs_local_retries_once:
  assumes "FirstInstallResult (istate s) = None"
    and "fst (tryInstall env FirstTry mgr f s) = Inl err"
  shows "(Cause err = ErrNeedLocal \<and> fst (doForceLocal env FromRetry f s) = Inr lf \<longrightarrow>
            filter isTry (trace (snd (firstInstall env mgr f s)))
              = filter isTry (trace s) @ [EvTryInstall FirstTry, EvTryInstall LocalRetry]
            \<and> filter isBackendInstall (trace (snd (firstInstall env mgr f s)))
              = filter isBackendInstall (trace s) @ backendCalls env FirstTry mgr f
                  @ backendCalls env LocalRetry mgr lf
            \<and> fst (firstInstall env mgr f s)
              = (case fst (tryInstall env LocalRetry mgr lf s) of
                   Inl err' \<Rightarrow> Inl (WithStack err')
                 | Inr res \<Rightarrow> Inr res))
       \<and> (Cause err = ErrNeedLocal \<and> fst (doForceLocal env FromRetry f s) = Inl localErr \<longrightarrow>
            filter isTry (trace (snd (firstInstall env mgr f s)))
              = filter isTry (trace s) @ [EvTryInstall FirstTry]
            \<and> filter isBackendInstall (trace (snd (firstInstall env mgr f s)))
              = filter isBackendInstall (trace s) @ backendCalls env FirstTry mgr f
            \<and> fst (firstInstall env mgr f s) = Inl (WithStack err))
       \<and> (Cause err \<noteq> ErrNeedLocal \<longrightarrow>
            filter isTry (trace (snd (firstInstall env mgr f s)))
              = filter isTry (trace s) @ [EvTryInstall FirstTry]
            \<and> filter isBackendInstall (trace (snd (firstInstall env mgr f s)))
              = filter isBackendInstall (trace s) @ backendCalls env FirstTry mgr f
            \<and> fst (firstInstall env mgr f s) = Inl (WithStack err))"
proof -
  obtain s1 where t1: "tryInstall env FirstTry mgr f s = (Inl err, s1)"
    using assms(2) by (cases "tryInstall env FirstTry mgr f s") simp
  have i1: "istate s1 = istate s"
    using tryInstall_istate [of env FirstTry mgr f s] t1 by simp
  have tr1: "trace s1 = trace s @ [EvTryInstall FirstTry] @ backendCalls env FirstTry mgr f @ [EvClose f]"
    using tryInstall_trace [of env FirstTry mgr f s] t1 by simp
  have b: "filter isTry (backendCalls env att m g) = []"
    "filter isBackendInstall (backendCalls env att m g) = backendCalls env att m g" for att m g
    by (simp_all add: backendCalls_def)
  obtain r2 s2 where d: "doForceLocal env FromRetry f s1 = (r2, s2)"
    by (cases "doForceLocal env FromRetry f s1")
  have r2: "r2 = fst (doForceLocal env FromRetry f s)"
    using doForceLocal_fst [of s1 s env FromRetry f] i1 d by simp
  have tr2: "filter isTry (trace s2) = filter isTry (trace s1)"
    "filter isBackendInstall (trace s2) = filter isBackendInstall (trace s1)"
    using doForceLocal_filter [of isTry env FromRetry f s1]
      doForceLocal_filter [of isBackendInstall env FromRetry f s1] d by simp_all
  have i2: "FirstInstallResult (istate s2) = None"
    using doForceLocal_frame(4) [of env FromRetry f s1] d i1 assms(1) by simp
  have t2: "fst (tryInstall env LocalRetry mgr g s2) = fst (tryInstall env LocalRetry mgr g s)" for g
    by (rule tryInstall_fst)
  show ?thesis
    using assms(1) t1 i1 tr1 d r2 tr2 i2 t2 b
    by (auto simp: firstInstall_def Let_def case_prod_unfold tryInstall_trace
        split: sum.splits)
qed

theorem needs_local_retries_once_witness:
  "filter isTry (trace (snd (firstInstall needsLocalEnv 0 1 freshState)))
     = [EvTryInstall FirstTry, EvTryInstall LocalRetry]
   \<and> filter isBackendInstall (trace (snd (firstInstall needsLocalEnv 0 1 freshState)))
     = [EvInstall FirstTry 0 1, EvInstall LocalRetry 0 2]
   \<and> fst (firstInstall needsLocalEnv 0 1 freshState) = Inr \<lparr>Files = [''a'', ''b'']\<rparr>"
proof -
  have h1: "FirstInstallResult (istate freshState) = None"
    by (simp add: freshState_def emptySubstate_def)
  have h2: "fst (tryInstall needsLocalEnv FirstTry 0 1 freshState) = Inl (WithStack ErrNeedLocal)"
    by (simp add: tryInstall_def needsLocalEnv_def okEnv_def Let_def)
  have h3: "Cause (WithStack ErrNeedLocal) = ErrNeedLocal
      \<and> fst (doForceLocal needsLocalEnv FromRetry 1 freshState) = Inr 2"
    by (simp add: doForceLocal_def dlErr_def needsLocalEnv_def okEnv_def Let_def freshState_def
        emptySubstate_def)
  have h4: "fst (tryInstall needsLocalEnv LocalRetry 0 2 freshState) = Inr \<lparr>Files = [''a'', ''b'']\<rparr>"
    by (simp add: tryInstall_def needsLocalEnv_def okEnv_def Let_def)
  have h5: "backendCalls needsLocalEnv FirstTry 0 1 = [EvInstall FirstTry 0 1]"
    "backendCalls needsLocalEnv LocalRetry 0 2 = [EvInstall LocalRetry 0 2]"
    "trace freshState = []"
    by (simp_all add: backendCalls_def needsLocalEnv_def okEnv_def freshState_def)
  from needs_local_retries_once [OF h1 h2, of 2] h3 h4 h5 show ?thesis by simp
qed

text \<open>
C6, as claimed, fails: the first backend invocation fails with \<open>ErrNeedLocal\<close>, the
  forced-local copy fails, and the backend is not invoked a second time.
\<close>

theorem failed_copy_is_not_retried:
  "manager_Install copyFailsEnv FirstTry 0 1 = Inl ErrNeedLocal
   \<and> fst (tryInstall copyFailsEnv FirstTry 0 1 freshState) = Inl (WithStack ErrNeedLocal)
   \<and> Cause (WithStack ErrNeedLocal) = ErrNeedLocal
   \<and> filter isTry (trace (snd (doInstallPerform copyFailsEnv okParams
         \<lparr>istate = emptySubstate, trace = []\<rparr>))) = [EvTryInstall FirstTry]
   \<and> filter isBackendInstall (trace (snd (doInstallPerform copyFailsEnv okParams
         \<lparr>istate = emptySubstate, trace = []\<rparr>))) = [EvInstall FirstTry 0 1]
   \<and> fst (doInstallPerform copyFailsEnv okParams \<lparr>istate = emptySubstate, trace = []\<rparr>)
       = Err (WithStack (WithStack ErrNeedLocal))"
  by (simp add: run_defs copyFailsEnv_def needsLocalEnv_def)

section \<open>The nested installer\<close>



lemma isNestedTry_backendCalls [simp]: "filter isNestedTry (backendCalls env att mgr f) = []"
  by (simp add: backendCalls_def)
















end
